theory Spec2Isabelle
  imports Main
begin

section \<open>Workflow definitions (src/lib/workflows/llm-generator.ts)\<close>

text \<open>
  The zod schemas \<^verbatim>\<open>workflowStepSchema\<close>, \<^verbatim>\<open>workflowConfigSchema\<close> and
  \<^verbatim>\<open>workflowSchema\<close>. The validator reads a step's \<^verbatim>\<open>params\<close> only through
  \<^verbatim>\<open>JSON.stringify(step.params)\<close>, so the field \<open>params\<close> holds that JSON text.
  Optional fields are options.
\<close>

record workflow_step =
  name :: string
  module :: string
  params :: string
  outputAs :: "string option"
  condition :: "string option"

datatype trigger_type = Manual | Cron | Webhook | Chat

record workflow_trigger =
  triggerType :: trigger_type
  schedule :: "string option"
  webhookPath :: "string option"

record workflow_config =
  steps :: "workflow_step list"
  outputDisplay :: "string option"

record generated_workflow =
  workflowName :: string
  description :: string
  trigger :: workflow_trigger
  config :: workflow_config
  requiredCredentials :: "string list"

text \<open>
  \<^verbatim>\<open>moduleRegistry\<close> (imported from \<^verbatim>\<open>./module-registry\<close>) is a table
  category \<open>\<rightarrow>\<close> module \<open>\<rightarrow>\<close> function \<open>\<rightarrow>\<close> descriptor. It is a parameter of the
  validator; \<^verbatim>\<open>moduleRegistry[k]\<close> is the lookup of the key \<open>k\<close>, falsy when absent. The
  map stands for the property lookup of the object, so a key is any property the lookup
  finds, inherited ones included.
\<close>

datatype module_function = ModuleFunction (fn_description: "string option")

type_synonym module_registry = "string \<rightharpoonup> (string \<rightharpoonup> (string \<rightharpoonup> module_function))"

record validation_result =
  valid :: bool
  errors :: "string list"
  warnings :: "string list"

subsection \<open>String helpers of the validator\<close>

text \<open>\<^verbatim>\<open>s.split(c)\<close> for a one-character separator: never empty, \<^verbatim>\<open>"".split(".")\<close> is \<^verbatim>\<open>[""]\<close>.\<close>

fun split_on :: "char \<Rightarrow> string \<Rightarrow> string list" where
  "split_on c [] = [[]]"
| "split_on c (x # xs) =
     (if x = c then [] # split_on c xs
      else (case split_on c xs of
              y # ys \<Rightarrow> (x # y) # ys
            | [] \<Rightarrow> [[x]]))"

text \<open>
  One attempt of the regular expression \<^verbatim>\<open>/\{\{([^}]+)\}\}/\<close> at the start of a
  string: two opening braces, the longest non-empty run of characters other than a closing
  brace, two closing braces. The result is the matched text and what follows it. A shorter
  run cannot match, since the character after it is not a closing brace.
\<close>

definition match_at :: "string \<Rightarrow> (string \<times> string) option" where
  "match_at s =
     (case s of
        a # b # r \<Rightarrow>
          if a = CHR ''{'' \<and> b = CHR ''{'' then
            (let body = takeWhile (\<lambda>c. c \<noteq> CHR ''}'') r;
                 after = dropWhile (\<lambda>c. c \<noteq> CHR ''}'') r
             in if body \<noteq> [] \<and> take 2 after = ''}}''
                then Some (''{{'' @ body @ ''}}'', drop 2 after)
                else None)
          else None
      | _ \<Rightarrow> None)"

text \<open>
  \<^verbatim>\<open>paramString.match(/\{\{([^}]+)\}\}/g) || []\<close>: all matches from left to right, the
  search resuming after each match and one character further after a failed attempt.
\<close>

function variableRefs :: "string \<Rightarrow> string list" where
  "variableRefs [] = []"
| "variableRefs (c # cs) =
     (case match_at (c # cs) of
        Some (m, rest) \<Rightarrow> m # variableRefs rest
      | None \<Rightarrow> variableRefs cs)"
  by pat_completeness auto
termination
proof (relation "measure length")
  show "wf (measure length)" by simp
next
  fix c :: char and cs :: string and x2 :: "string \<times> string" and m rest :: string
  assume "match_at (c # cs) = Some x2" and "(m, rest) = x2"
  then have "match_at (c # cs) = Some (m, rest)" by simp
  moreover have "length (dropWhile (\<lambda>c. c \<noteq> CHR ''}'') xs) - 2 \<le> Suc (length xs)" for xs :: string
    using length_dropWhile_le [of "\<lambda>c. c \<noteq> CHR ''}''" xs] by simp
  ultimately have "length rest \<le> length cs"
    by (auto simp: match_at_def Let_def split: list.splits if_splits)
  then show "(rest, c # cs) \<in> measure length" by simp
next
  fix c :: char and cs :: string
  show "(cs, c # cs) \<in> measure length" by simp
qed

text \<open>\<^verbatim>\<open>ref.replace(/\{\{|\}\}/g, '')\<close>: every pair of braces is deleted, left to right.\<close>

fun strip_braces :: "string \<Rightarrow> string" where
  "strip_braces (a # b # r) =
     (if a = CHR ''{'' \<and> b = CHR ''{'' then strip_braces r
      else if a = CHR ''}'' \<and> b = CHR ''}'' then strip_braces r
      else a # strip_braces (b # r))"
| "strip_braces [a] = [a]"
| "strip_braces [] = []"

text \<open>\<^verbatim>\<open>ref.replace(...).split('.')[0].split('[')[0]\<close>, the root name of a reference.\<close>

definition varNameOf :: "string \<Rightarrow> string" where
  "varNameOf ref = hd (split_on CHR ''['' (hd (split_on CHR ''.'' (strip_braces ref))))"

subsection \<open>validateWorkflow\<close>

definition invalidFormatError :: "workflow_step \<Rightarrow> string" where
  \<open>invalidFormatError step =
     ''Step "'' @ name step @ ''": Invalid module path format: '' @ module step\<close>

definition unknownCategoryError :: "workflow_step \<Rightarrow> string \<Rightarrow> string" where
  \<open>unknownCategoryError step category =
     ''Step "'' @ name step @ ''": Unknown category: '' @ category\<close>

definition unknownModuleError :: "workflow_step \<Rightarrow> string \<Rightarrow> string \<Rightarrow> string" where
  \<open>unknownModuleError step category moduleName =
     ''Step "'' @ name step @ ''": Unknown module: '' @ category @ ''.'' @ moduleName\<close>

definition unknownFunctionError :: "workflow_step \<Rightarrow> string" where
  \<open>unknownFunctionError step =
     ''Step "'' @ name step @ ''": Unknown function: '' @ module step\<close>

definition undefinedVariableWarning :: "workflow_step \<Rightarrow> string \<Rightarrow> string" where
  \<open>undefinedVariableWarning step varName =
     ''Step "'' @ name step @ ''": Variable {{'' @ varName @ ''}} may not be defined yet''\<close>

text \<open>
  The inner loop over \<^verbatim>\<open>variableRefs\<close>. \<open>earlier\<close> is
  \<^verbatim>\<open>workflow.config.steps.slice(0, workflow.config.steps.indexOf(step))\<close>: the steps of
  the array are distinct objects, so \<^verbatim>\<open>indexOf(step)\<close> is the position the outer loop
  has reached and the slice holds the steps before it.
\<close>

definition definedBefore :: "workflow_step list \<Rightarrow> string \<Rightarrow> bool" where
  "definedBefore earlier varName = list_ex (\<lambda>s. outputAs s = Some varName) earlier"

definition checkRef ::
  "workflow_step list \<Rightarrow> workflow_step \<Rightarrow> string list \<Rightarrow> string \<Rightarrow> string list" where
  "checkRef earlier step warns ref =
     (let varName = varNameOf ref in
      if \<not> definedBefore earlier varName \<and> varName \<noteq> ''input''
      then warns @ [undefinedVariableWarning step varName]
      else warns)"

definition checkRefs ::
  "workflow_step list \<Rightarrow> workflow_step \<Rightarrow> string list \<Rightarrow> string list" where
  "checkRefs earlier step warns =
     foldl (checkRef earlier step) warns (variableRefs (params step))"

text \<open>
  The body of the loop over the steps, on the pair of the arrays \<^verbatim>\<open>errors\<close> and \<^verbatim>\<open>warnings\<close>. The
  destructuring \<^verbatim>\<open>[category, moduleName, functionName] = step.module.split('.')\<close>
  takes the first three segments; a missing one is \<^verbatim>\<open>undefined\<close>, which is falsy like
  the empty string. Each \<^verbatim>\<open>continue\<close> ends the body.
\<close>

definition validateStep ::
  "module_registry \<Rightarrow> workflow_step list \<Rightarrow> workflow_step \<Rightarrow>
   string list \<times> string list \<Rightarrow> string list \<times> string list" where
  "validateStep registry earlier step acc =
     (case acc of (errs, warns) \<Rightarrow>
        (case split_on CHR ''.'' (module step) of
           category # moduleName # functionName # _ \<Rightarrow>
             if category = [] \<or> moduleName = [] \<or> functionName = []
             then (errs @ [invalidFormatError step], warns)
             else (case registry category of
                     None \<Rightarrow> (errs @ [unknownCategoryError step category], warns)
                   | Some modules \<Rightarrow>
                       (case modules moduleName of
                          None \<Rightarrow>
                            (errs @ [unknownModuleError step category moduleName], warns)
                        | Some functions \<Rightarrow>
                            (case functions functionName of
                               None \<Rightarrow> (errs @ [unknownFunctionError step], warns)
                             | Some _ \<Rightarrow> (errs, checkRefs earlier step warns))))
         | _ \<Rightarrow> (errs @ [invalidFormatError step], warns)))"

fun validateSteps ::
  "module_registry \<Rightarrow> workflow_step list \<Rightarrow> workflow_step list \<Rightarrow>
   string list \<times> string list \<Rightarrow> string list \<times> string list" where
  "validateSteps registry earlier [] acc = acc"
| "validateSteps registry earlier (step # rest) acc =
     validateSteps registry (earlier @ [step]) rest (validateStep registry earlier step acc)"

definition validateWorkflow :: "module_registry \<Rightarrow> generated_workflow \<Rightarrow> validation_result" where
  "validateWorkflow registry workflow =
     (case validateSteps registry [] (steps (config workflow)) ([], []) of
        (errs, warns) \<Rightarrow> \<lparr>valid = (errs = []), errors = errs, warnings = warns\<rparr>)"

subsection \<open>What one step contributes\<close>

text \<open>
  The error the loop body pushes for a step run on empty arrays, if any; it does not depend
  on the steps before it.
\<close>

definition moduleError :: "module_registry \<Rightarrow> workflow_step \<Rightarrow> string option" where
  "moduleError registry step =
     (case fst (validateStep registry [] step ([], [])) of [] \<Rightarrow> None | e # _ \<Rightarrow> Some e)"

text \<open>The warnings the inner loop pushes for a step whose module path passed the checks.\<close>

definition stepWarnings :: "workflow_step list \<Rightarrow> workflow_step \<Rightarrow> string list" where
  "stepWarnings earlier step =
     map (undefinedVariableWarning step)
       (filter (\<lambda>varName. \<not> definedBefore earlier varName \<and> varName \<noteq> ''input'')
          (map varNameOf (variableRefs (params step))))"

text \<open>
  The four checks of the loop body as a predicate on the module path: the first three
  segments exist, are non-empty and are keys of the registry, level by level.
\<close>

definition modulePathResolves :: "module_registry \<Rightarrow> string \<Rightarrow> bool" where
  "modulePathResolves registry path =
     (case split_on CHR ''.'' path of
        category # moduleName # functionName # _ \<Rightarrow>
          category \<noteq> [] \<and> moduleName \<noteq> [] \<and> functionName \<noteq> [] \<and>
          (case registry category of
             None \<Rightarrow> False
           | Some modules \<Rightarrow>
               (case modules moduleName of
                  None \<Rightarrow> False
                | Some functions \<Rightarrow> functions functionName \<noteq> None))
      | _ \<Rightarrow> False)"

definition warningsOfStep :: "module_registry \<Rightarrow> workflow_step list \<Rightarrow> nat \<Rightarrow> string list" where
  "warningsOfStep registry ss i =
     (if modulePathResolves registry (module (ss ! i))
      then stepWarnings (take i ss) (ss ! i) else [])"

text \<open>
  The path format as the schema describes it (\<^verbatim>\<open>category.module.function\<close>): exactly
  three non-empty segments.
\<close>

definition exactlyThreeSegments :: "string \<Rightarrow> bool" where
  "exactlyThreeSegments path =
     (case split_on CHR ''.'' path of
        [category, moduleName, functionName] \<Rightarrow>
          category \<noteq> [] \<and> moduleName \<noteq> [] \<and> functionName \<noteq> []
      | _ \<Rightarrow> False)"

subsection \<open>Example definitions\<close>

definition exampleRegistry :: module_registry where
  "exampleRegistry =
     [''ai'' \<mapsto> [''aiSdk'' \<mapsto> [''chat'' \<mapsto> ModuleFunction None]]]"

definition exampleTrigger :: workflow_trigger where
  "exampleTrigger = \<lparr>triggerType = Manual, schedule = None, webhookPath = None\<rparr>"

definition chatStep :: "string \<Rightarrow> string \<Rightarrow> string option \<Rightarrow> workflow_step" where
  "chatStep n path out =
     \<lparr>name = n, module = path, params = ''{\"prompt\":\"{{foo.text}}\"}'', outputAs = out,
      condition = None\<rparr>"

definition workflowOf :: "workflow_step list \<Rightarrow> generated_workflow" where
  "workflowOf ss =
     \<lparr>workflowName = ''example'', description = ''example workflow'', trigger = exampleTrigger,
      config = \<lparr>steps = ss, outputDisplay = None\<rparr>, requiredCredentials = []\<rparr>"

definition duplicateOutputWorkflow :: generated_workflow where
  "duplicateOutputWorkflow =
     workflowOf [chatStep ''first'' ''ai.aiSdk.chat'' (Some ''foo''),
                 chatStep ''second'' ''ai.aiSdk.chat'' (Some ''foo'')]"

definition extraSegmentWorkflow :: generated_workflow where
  "extraSegmentWorkflow = workflowOf [chatStep ''only'' ''ai.aiSdk.chat.extra'' None]"

definition unresolvedWorkflow :: generated_workflow where
  "unresolvedWorkflow =
     workflowOf [chatStep ''broken'' ''ai.aiSdk.missing'' (Some ''out''),
                 chatStep ''next'' ''ai.aiSdk.chat'' None]"

definition unscannedWorkflow :: generated_workflow where
  "unscannedWorkflow = workflowOf [chatStep ''broken'' ''ai.aiSdk.missing'' None]"

section \<open>The API routes\<close>

subsection \<open>JSON values, thrown values, responses\<close>

datatype json =
    JNull
  | JBool bool
  | JNumber int
  | JString string
  | JArray "json list"
  | JObject "(string \<times> json) list"

text \<open>JavaScript truthiness of a JSON value, for \<^verbatim>\<open>x || d\<close> and \<^verbatim>\<open>if (x)\<close>.\<close>

fun falsy :: "json \<Rightarrow> bool" where
  "falsy JNull = True"
| "falsy (JBool b) = (\<not> b)"
| "falsy (JNumber n) = (n = 0)"
| "falsy (JString s) = (s = [])"
| "falsy (JArray _) = False"
| "falsy (JObject _) = False"

text \<open>\<^verbatim>\<open>x || d\<close> where \<^verbatim>\<open>x\<close> may be undefined (\<open>None\<close>).\<close>

definition orElse :: "json option \<Rightarrow> json \<Rightarrow> json" where
  "orElse x d = (case x of None \<Rightarrow> d | Some v \<Rightarrow> if falsy v then d else v)"

text \<open>
  A thrown value: an \<^verbatim>\<open>Error\<close> object with its message, or anything else. The handlers
  read it as \<^verbatim>\<open>error instanceof Error ? error.message : 'Unknown error'\<close>.
\<close>

datatype thrown = Error string | NonError

definition errorMessage :: "thrown \<Rightarrow> string" where
  "errorMessage e = (case e of Error m \<Rightarrow> m | NonError \<Rightarrow> ''Unknown error'')"

text \<open>
  Reading a property of a parsed body: an object yields the value of the key or undefined,
  every other JSON value but \<^verbatim>\<open>null\<close> yields undefined, and \<^verbatim>\<open>null.k\<close> throws a
  \<^verbatim>\<open>TypeError\<close> (the message is the engine's).
\<close>

definition property :: "json \<Rightarrow> string \<Rightarrow> json option" where
  "property v k = (case v of JObject props \<Rightarrow> map_of props k | _ \<Rightarrow> None)"

definition getProperty :: "json \<Rightarrow> string \<Rightarrow> thrown + json option" where
  "getProperty v k =
     (if v = JNull then Inl (Error ''Cannot read properties of null'')
      else Inr (property v k))"

text \<open>
  \<^verbatim>\<open>NextResponse.json(body, { status })\<close>: the status (200 when not given) and the fields
  of the body in the order of the object literal. A field whose value is undefined is left
  out, as JSON serialisation does.
\<close>

record http_response =
  status :: nat
  body :: "(string \<times> json) list"

definition optionalField :: "string \<Rightarrow> json option \<Rightarrow> (string \<times> json) list" where
  "optionalField k v = (case v of None \<Rightarrow> [] | Some x \<Rightarrow> [(k, x)])"

subsection \<open>POST /api/workflows/[id]/run\<close>

text \<open>
  What the handler imports and does not define: the rate-limit check, the session, the
  queue module (\<^verbatim>\<open>@/lib/workflows/workflow-queue\<close>) and the executor
  (\<^verbatim>\<open>@/lib/workflows/executor\<close>). They are the fields of \<open>run_env\<close>; a function that may
  throw returns a sum, \<open>Inl\<close> the thrown value. \<open>requestJson\<close> is the outcome of
  \<^verbatim>\<open>request.json()\<close>, \<open>None\<close> when it rejects.
\<close>

record queue_ticket =
  jobId :: string
  queued :: bool

record execution_result =
  success :: bool
  "output" :: "json option"
  error :: "string option"
  errorStep :: "string option"

record run_env =
  checkStrictRateLimit :: "http_response option"
  auth :: "string option"
  requestJson :: "json option"
  isWorkflowQueueAvailable :: bool
  queueWorkflowExecution ::
    "string \<Rightarrow> string \<Rightarrow> json \<Rightarrow> json \<Rightarrow> json option \<Rightarrow> thrown + queue_ticket"
  executeWorkflow :: "string \<Rightarrow> string \<Rightarrow> json \<Rightarrow> json \<Rightarrow> thrown + execution_result"

text \<open>
  The body the handler works on: \<^verbatim>\<open>request.json().catch(() => ({}))\<close> replaces an
  unreadable body by the empty object.
\<close>

definition requestBody :: "run_env \<Rightarrow> json" where
  "requestBody env = (case requestJson env of None \<Rightarrow> JObject [] | Some v \<Rightarrow> v)"

text \<open>The calls the handler makes to the queue and to the executor, in order.\<close>

datatype run_call =
    QueueWorkflowExecution string string json json "json option"
  | ExecuteWorkflow string string json json

text \<open>The \<^verbatim>\<open>catch\<close> block of the handler.\<close>

definition runFailed :: "thrown \<Rightarrow> http_response" where
  "runFailed e =
     \<lparr>status = 500,
      body = [(''success'', JBool False), (''error'', JString (errorMessage e))]\<rparr>"

text \<open>
  The \<^verbatim>\<open>try\<close> block once the body \<open>b\<close> is read: what it returns or throws, and the
  calls it has made to the queue and to the executor.
\<close>

definition runWorkflow ::
  "run_env \<Rightarrow> string \<Rightarrow> string \<Rightarrow> json \<Rightarrow> (thrown + http_response) \<times> run_call list" where
  "runWorkflow env workflowId user b =
     (case getProperty b ''triggerData'' of
        Inl e \<Rightarrow> (Inl e, [])
      | Inr td \<Rightarrow>
     (case getProperty b ''triggerType'' of
        Inl e \<Rightarrow> (Inl e, [])
      | Inr tt \<Rightarrow>
     (case getProperty b ''priority'' of
        Inl e \<Rightarrow> (Inl e, [])
      | Inr priority \<Rightarrow>
     (let triggerData = orElse td (JObject []);
          triggerType = orElse tt (JString ''manual'')
      in if isWorkflowQueueAvailable env then
           (case queueWorkflowExecution env workflowId user triggerType triggerData priority of
              Inl e \<Rightarrow> Inl e
            | Inr ticket \<Rightarrow>
                Inr \<lparr>status = 200,
                      body = [(''success'', JBool True),
                              (''queued'', JBool (queued ticket)),
                              (''jobId'', JString (jobId ticket)),
                              (''message'', JString ''Workflow queued for execution'')]\<rparr>,
            [QueueWorkflowExecution workflowId user triggerType triggerData priority])
         else
           (case executeWorkflow env workflowId user triggerType triggerData of
              Inl e \<Rightarrow> Inl e
            | Inr result \<Rightarrow>
                Inr (if \<not> success result then
                       \<lparr>status = 500,
                        body = [(''success'', JBool False)]
                               @ optionalField ''error'' (map_option JString (error result))
                               @ optionalField ''errorStep''
                                   (map_option JString (errorStep result))\<rparr>
                     else
                       \<lparr>status = 200,
                        body = [(''success'', JBool True)]
                               @ optionalField ''output'' (output result)
                               @ [(''queued'', JBool False)]\<rparr>),
            [ExecuteWorkflow workflowId user triggerType triggerData])))))"

text \<open>
  The handler. \<^verbatim>\<open>!session?.user?.id\<close> holds without a session, user or id and for the
  empty id.
\<close>

definition POST_run :: "run_env \<Rightarrow> string \<Rightarrow> http_response \<times> run_call list" where
  "POST_run env workflowId =
     (case checkStrictRateLimit env of
        Some rateLimitResult \<Rightarrow> (rateLimitResult, [])
      | None \<Rightarrow>
          (case auth env of
             None \<Rightarrow> (\<lparr>status = 401, body = [(''error'', JString ''Unauthorized'')]\<rparr>, [])
           | Some user \<Rightarrow>
               if user = []
               then (\<lparr>status = 401, body = [(''error'', JString ''Unauthorized'')]\<rparr>, [])
               else (case runWorkflow env workflowId user (requestBody env) of
                       (Inr response, calls) \<Rightarrow> (response, calls)
                     | (Inl e, calls) \<Rightarrow> (runFailed e, calls))))"

subsection \<open>Example environments of the run route\<close>

definition failingRunEnv :: run_env where
  "failingRunEnv =
     \<lparr>checkStrictRateLimit = None, auth = Some ''user-1'', requestJson = None,
      isWorkflowQueueAvailable = False,
      queueWorkflowExecution = (\<lambda>_ _ _ _ _. Inl NonError),
      executeWorkflow = (\<lambda>_ _ _ _.
        Inr \<lparr>success = False, output = None, error = Some ''Request failed'',
             errorStep = Some ''fetch''\<rparr>)\<rparr>"

definition throwingRunEnv :: run_env where
  "throwingRunEnv =
     \<lparr>checkStrictRateLimit = None, auth = Some ''user-1'', requestJson = None,
      isWorkflowQueueAvailable = False,
      queueWorkflowExecution = (\<lambda>_ _ _ _ _. Inl NonError),
      executeWorkflow = (\<lambda>_ _ _ _. Inl (Error ''Workflow not found''))\<rparr>"

definition queueingRunEnv :: run_env where
  "queueingRunEnv =
     \<lparr>checkStrictRateLimit = None, auth = Some ''user-1'', requestJson = None,
      isWorkflowQueueAvailable = True,
      queueWorkflowExecution = (\<lambda>_ _ _ _ _. Inr \<lparr>jobId = ''job-7'', queued = True\<rparr>),
      executeWorkflow = (\<lambda>_ _ _ _. Inl (Error ''Workflow not found''))\<rparr>"

definition inlineRunEnv :: run_env where
  "inlineRunEnv =
     \<lparr>checkStrictRateLimit = None, auth = Some ''user-1'', requestJson = None,
      isWorkflowQueueAvailable = False,
      queueWorkflowExecution = (\<lambda>_ _ _ _ _. Inl NonError),
      executeWorkflow = (\<lambda>_ _ _ _.
        Inr \<lparr>success = True, output = Some (JString ''done''), error = None,
             errorStep = None\<rparr>)\<rparr>"

definition bareFailureRunEnv :: run_env where
  "bareFailureRunEnv =
     \<lparr>checkStrictRateLimit = None, auth = Some ''user-1'', requestJson = None,
      isWorkflowQueueAvailable = False,
      queueWorkflowExecution = (\<lambda>_ _ _ _ _. Inl NonError),
      executeWorkflow = (\<lambda>_ _ _ _.
        Inr \<lparr>success = False, output = None, error = None, errorStep = None\<rparr>)\<rparr>"

subsection \<open>POST /api/workflows/generate\<close>

text \<open>
  \<^verbatim>\<open>generateWorkflowFromPrompt\<close> (llm-generator.ts) asks the model for an object of the
  workflow schema through \<^verbatim>\<open>generateObject\<close>, a parameter here, and rethrows any failure
  with its own prefix.
\<close>

definition generateWorkflowFromPrompt ::
  "(string \<Rightarrow> json option \<Rightarrow> thrown + generated_workflow) \<Rightarrow>
   string \<Rightarrow> json option \<Rightarrow> thrown + generated_workflow" where
  "generateWorkflowFromPrompt generateObject userPrompt context =
     (case generateObject userPrompt context of
        Inl e \<Rightarrow> Inl (Error (''Failed to generate workflow: '' @ errorMessage e))
      | Inr object \<Rightarrow> Inr object)"

text \<open>
  The row handed to \<^verbatim>\<open>postgresDb.insert(workflowsTablePostgres).values(...)\<close>: the fields
  of the workflow, the user and the status column.
\<close>

record workflow_row = generated_workflow +
  userId :: string
  workflowStatus :: string

definition workflowRow :: "string \<Rightarrow> generated_workflow \<Rightarrow> workflow_row" where
  "workflowRow user workflow =
     \<lparr>workflowName = workflowName workflow,
      description = description workflow,
      trigger = trigger workflow,
      config = config workflow,
      requiredCredentials = requiredCredentials workflow,
      userId = user,
      workflowStatus = ''draft''\<rparr>"

text \<open>
  The five responses of the handler: 401, 400 (no prompt), 400 with the workflow and its
  validation, 200 with the workflow, its validation, the id of the saved row if any and
  the message, 500 with the details.
\<close>

datatype generate_response =
    Unauthorized
  | PromptRequired
  | ValidationFailed generated_workflow validation_result
  | Generated generated_workflow validation_result "string option" string
  | GenerationFailed string

fun responseStatus :: "generate_response \<Rightarrow> nat" where
  "responseStatus Unauthorized = 401"
| "responseStatus PromptRequired = 400"
| "responseStatus (ValidationFailed _ _) = 400"
| "responseStatus (Generated _ _ _ _) = 200"
| "responseStatus (GenerationFailed _) = 500"

text \<open>
  The part of the \<^verbatim>\<open>try\<close> block after generation: validate, then save if asked.
  \<open>postgresDb\<close> is \<open>None\<close> for the null database; otherwise it is the insert with
  \<^verbatim>\<open>.returning()\<close>, which yields the id of the saved row or throws. The second component
  lists the rows handed to the insert.
\<close>

definition validateAndSave ::
  "module_registry \<Rightarrow> string \<Rightarrow> bool \<Rightarrow> (workflow_row \<Rightarrow> thrown + string) option \<Rightarrow>
   generated_workflow \<Rightarrow> (thrown + generate_response) \<times> workflow_row list" where
  "validateAndSave registry user saveImmediately postgresDb workflow =
     (let validation = validateWorkflow registry workflow in
      if \<not> valid validation then (Inr (ValidationFailed workflow validation), [])
      else if saveImmediately then
        (case postgresDb of
           None \<Rightarrow> (Inl (Error ''Database not initialized''), [])
         | Some insertReturning \<Rightarrow>
             (let row = workflowRow user workflow
              in (case insertReturning row of
                    Inl e \<Rightarrow> Inl e
                  | Inr workflowId \<Rightarrow>
                      Inr (Generated workflow validation (Some workflowId)
                             ''Workflow generated and saved successfully''),
                  [row])))
      else (Inr (Generated workflow validation None
                   ''Workflow generated successfully (not saved)''), []))"

text \<open>
  The \<^verbatim>\<open>try\<close> block from the reading of the body on. The destructuring
  \<^verbatim>\<open>{ prompt, saveImmediately = false, context } = body\<close> throws on \<^verbatim>\<open>null\<close>; the prompt
  must be a non-empty string.
\<close>

definition generateAndSave ::
  "module_registry \<Rightarrow> string \<Rightarrow> thrown + json \<Rightarrow>
   (string \<Rightarrow> json option \<Rightarrow> thrown + generated_workflow) \<Rightarrow>
   (workflow_row \<Rightarrow> thrown + string) option \<Rightarrow>
   (thrown + generate_response) \<times> workflow_row list" where
  "generateAndSave registry user parsedBody generateObject postgresDb =
     (case parsedBody of
        Inl e \<Rightarrow> (Inl e, [])
      | Inr b \<Rightarrow>
     (case getProperty b ''prompt'' of
        Inl e \<Rightarrow> (Inl e, [])
      | Inr prompt \<Rightarrow>
     (case getProperty b ''saveImmediately'' of
        Inl e \<Rightarrow> (Inl e, [])
      | Inr save \<Rightarrow>
     (case getProperty b ''context'' of
        Inl e \<Rightarrow> (Inl e, [])
      | Inr context \<Rightarrow>
     (case prompt of
        Some (JString p) \<Rightarrow>
          if p = [] then (Inr PromptRequired, [])
          else (case generateWorkflowFromPrompt generateObject p context of
                  Inl e \<Rightarrow> (Inl e, [])
                | Inr workflow \<Rightarrow>
                    validateAndSave registry user
                      (case save of None \<Rightarrow> False | Some v \<Rightarrow> \<not> falsy v)
                      postgresDb workflow)
      | _ \<Rightarrow> (Inr PromptRequired, []))))))"

text \<open>
  The handler with its \<^verbatim>\<open>catch\<close> block; \<open>session\<close> is \<^verbatim>\<open>session?.user?.id\<close> and
  \<open>parsedBody\<close> the outcome of \<^verbatim>\<open>await request.json()\<close>, \<open>Inl\<close> when it throws.
\<close>

definition POST_generate ::
  "module_registry \<Rightarrow> string option \<Rightarrow> thrown + json \<Rightarrow>
   (string \<Rightarrow> json option \<Rightarrow> thrown + generated_workflow) \<Rightarrow>
   (workflow_row \<Rightarrow> thrown + string) option \<Rightarrow>
   generate_response \<times> workflow_row list" where
  "POST_generate registry session parsedBody generateObject postgresDb =
     (case session of
        None \<Rightarrow> (Unauthorized, [])
      | Some user \<Rightarrow>
          if user = [] then (Unauthorized, [])
          else (case generateAndSave registry user parsedBody generateObject postgresDb of
                  (Inr response, rows) \<Rightarrow> (response, rows)
                | (Inl e, rows) \<Rightarrow> (GenerationFailed (errorMessage e), rows)))"

subsection \<open>Example inputs of the generate route\<close>

definition warningWorkflow :: generated_workflow where
  "warningWorkflow = workflowOf [chatStep ''only'' ''ai.aiSdk.chat'' None]"

definition saveRequest :: json where
  "saveRequest =
     JObject [(''prompt'', JString ''Summarise the feed''), (''saveImmediately'', JBool True)]"

section \<open>The GoHighLevel module\<close>

text \<open>
  The module that talks to \<^verbatim>\<open>https://services.leadconnectorhq.com\<close>. A call returns a value
  or throws, and leaves a trace: the wrappers it went through and the requests it sent.
\<close>

datatype event =
    ThroughRateLimiter string
  | ThroughBreaker string nat
  | NetworkRequest string string

type_synonym 'a traced = "(thrown + 'a) \<times> event list"

text \<open>
  The environment of the module: the two configuration variables and \<^verbatim>\<open>fetch\<close>, which
  rejects or yields a response. \<open>statusCode\<close> is the status as it is printed, \<open>jsonBody\<close>
  the parsed body when the content type is
  \<^verbatim>\<open>application/json\<close>.
\<close>

record fetch_response =
  ok :: bool
  statusCode :: string
  responseText :: string
  jsonBody :: "json option"

record ghl_env =
  GHL_API_KEY :: "string option"
  GHL_LOCATION_ID :: "string option"
  fetch :: "string \<Rightarrow> string \<Rightarrow> json option \<Rightarrow> thrown + fetch_response"

definition GHL_BASE_URL :: string where
  "GHL_BASE_URL = ''https://services.leadconnectorhq.com''"

definition unset :: "string option \<Rightarrow> bool" where
  "unset v = (case v of None \<Rightarrow> True | Some s \<Rightarrow> s = [])"

definition makeGHLRequest :: "ghl_env \<Rightarrow> string \<Rightarrow> string \<Rightarrow> json option \<Rightarrow> json traced" where
  "makeGHLRequest env endpoint method payload =
     (if unset (GHL_API_KEY env) then
        (Inl (Error
           ''GoHighLevel API key not configured. Set GHL_API_KEY or GOHIGHLEVEL_API_KEY.''), [])
      else
        (case fetch env (GHL_BASE_URL @ endpoint) method
                (case payload of
                   None \<Rightarrow> None
                 | Some v \<Rightarrow> if falsy v then None else Some v) of
           Inl e \<Rightarrow> Inl e
         | Inr response \<Rightarrow>
             if \<not> ok response then
               Inl (Error (''GoHighLevel API error ('' @ statusCode response @ ''): ''
                           @ responseText response))
             else (case jsonBody response of
                     Some data \<Rightarrow> Inr data
                   | None \<Rightarrow> Inr (JObject [])),
         [NetworkRequest method (GHL_BASE_URL @ endpoint)]))"

text \<open>
  \<^verbatim>\<open>logger.info({ contactId: result.contact.id }, ...); return result.contact\<close>: reading
  \<^verbatim>\<open>id\<close> throws when the result has no contact.
\<close>

definition contactOf :: "json \<Rightarrow> thrown + json" where
  "contactOf result =
     (case property result ''contact'' of
        None \<Rightarrow> Inl (Error ''Cannot read properties of undefined'')
      | Some contact \<Rightarrow>
          if contact = JNull then Inl (Error ''Cannot read properties of null'')
          else Inr contact)"

definition contactRequest :: "ghl_env \<Rightarrow> string \<Rightarrow> string \<Rightarrow> json option \<Rightarrow> json traced" where
  "contactRequest env endpoint method payload =
     (case makeGHLRequest env endpoint method payload of
        (Inl e, trace) \<Rightarrow> (Inl e, trace)
      | (Inr result, trace) \<Rightarrow> (contactOf result, trace))"

definition createContactInternal :: "ghl_env \<Rightarrow> (string \<times> json) list \<Rightarrow> json traced" where
  "createContactInternal env data =
     (case GHL_LOCATION_ID env of
        None \<Rightarrow> (Inl (Error ''GHL_LOCATION_ID not configured''), [])
      | Some locationId \<Rightarrow>
          if locationId = [] then (Inl (Error ''GHL_LOCATION_ID not configured''), [])
          else contactRequest env ''/contacts/'' ''POST''
                 (Some (JObject ((''locationId'', JString locationId) # data))))"

text \<open>
  Modelled from the spec: \<^verbatim>\<open>withRateLimit\<close> is imported from \<^verbatim>\<open>@/lib/rate-limiter\<close>,
  which is not in the sources. The rate limiter of the specification queues a call until a
  token and a slot are free and then runs it. Here it lets the call through and marks the
  trace with the \<^verbatim>\<open>id\<close> of the limiter.
\<close>

definition withRateLimit :: "string \<Rightarrow> 'a traced \<Rightarrow> 'a traced" where
  "withRateLimit limiterId call = (fst call, ThroughRateLimiter limiterId # snd call)"

text \<open>
  Modelled from the spec: the \<^verbatim>\<open>fire\<close> of the breaker that \<^verbatim>\<open>createCircuitBreaker\<close>
  (\<^verbatim>\<open>@/lib/resilience\<close>, not in the sources) builds around a function. While closed the
  breaker runs the call under its timeout. Here it lets the call through and marks the
  trace with the \<^verbatim>\<open>name\<close> and the \<^verbatim>\<open>timeout\<close> of the breaker.
\<close>

definition fire :: "string \<Rightarrow> nat \<Rightarrow> 'a traced \<Rightarrow> 'a traced" where
  "fire breakerName timeout call = (fst call, ThroughBreaker breakerName timeout # snd call)"

text \<open>The \<^verbatim>\<open>id\<close> of the limiter \<^verbatim>\<open>ghlRateLimiter\<close> of the module.\<close>

definition ghlRateLimiter :: string where
  "ghlRateLimiter = ''gohighlevel''"

text \<open>
  The exported functions. \<^verbatim>\<open>createContact\<close> calls \<^verbatim>\<open>createContactRateLimited\<close>, the
  rate-limited \<^verbatim>\<open>createContactWithBreaker.fire\<close>; \<^verbatim>\<open>updateContact\<close> and
  \<^verbatim>\<open>getContact\<close> call \<^verbatim>\<open>makeGHLRequest\<close> themselves.
\<close>

definition createContact :: "ghl_env \<Rightarrow> (string \<times> json) list \<Rightarrow> json traced" where
  "createContact env data =
     withRateLimit ghlRateLimiter
       (fire ''ghl-create-contact'' 15000 (createContactInternal env data))"

definition updateContact :: "ghl_env \<Rightarrow> string \<Rightarrow> (string \<times> json) list \<Rightarrow> json traced" where
  "updateContact env contactId data =
     contactRequest env (''/contacts/'' @ contactId) ''PUT'' (Some (JObject data))"

definition getContact :: "ghl_env \<Rightarrow> string \<Rightarrow> json traced" where
  "getContact env contactId =
     contactRequest env (''/contacts/'' @ contactId) ''GET'' None"

text \<open>
  A trace is routed through the wrapper when every network request in it comes after the
  passage through the rate limiter \<open>l\<close> and through some breaker. The two flags say
  which of the two the trace has already passed.
\<close>

fun routed :: "string \<Rightarrow> bool \<Rightarrow> bool \<Rightarrow> event list \<Rightarrow> bool" where
  "routed l limited guarded [] = True"
| "routed l limited guarded (ThroughRateLimiter i # es) = routed l (limited \<or> i = l) guarded es"
| "routed l limited guarded (ThroughBreaker _ _ # es) = routed l limited True es"
| "routed l limited guarded (NetworkRequest _ _ # es) =
     (limited \<and> guarded \<and> routed l limited guarded es)"

definition exampleGhlEnv :: ghl_env where
  "exampleGhlEnv =
     \<lparr>GHL_API_KEY = Some ''key'', GHL_LOCATION_ID = Some ''loc-1'',
      fetch = (\<lambda>_ _ _.
        Inr \<lparr>ok = True, statusCode = ''200'', responseText = [],
             jsonBody = Some (JObject [(''contact'',
               JObject [(''id'', JString ''c-1''), (''locationId'', JString ''loc-1'')])])\<rparr>)\<rparr>"

section \<open>The circuit breaker\<close>

text \<open>
  Modelled from the spec: \<^verbatim>\<open>createCircuitBreaker\<close> is imported from
  \<^verbatim>\<open>@/lib/resilience\<close>, which is not in the sources. The breaker of the specification
  counts consecutive failures, timeouts included; at the threshold \<open>F\<close> it opens for the
  cooldown \<open>T\<close>; while open it refuses calls without running them; once the cooldown has
  elapsed it admits one trial call and refuses the others until the trial is over; the
  trial's success closes it and resets the counter, its failure reopens it for a new
  cooldown. Time is a natural number of milliseconds.
\<close>

text \<open>Modelled from the spec: the threshold \<open>F\<close> and the cooldown \<open>T\<close> of a breaker.\<close>

record breaker_config =
  failureThreshold :: nat
  cooldown :: nat

text \<open>
  Modelled from the spec: the modes of a breaker. \<open>Open u\<close> is open until the time \<open>u\<close>,
  \<open>HalfOpen\<close> has the trial call in flight.
\<close>

datatype breaker_mode = Closed | Open nat | HalfOpen

text \<open>
  Modelled from the spec: the state of one breaker, its mode, the count of consecutive
  failures, and the number of times the wrapped module body has been run.
\<close>

record breaker =
  mode :: breaker_mode
  failures :: nat
  invocations :: nat

text \<open>
  Modelled from the spec: what a run of the module body comes to (a timeout counts as a
  failure), and what the caller of the breaker sees.
\<close>

datatype outcome = Succeeded | Failed string | TimedOut

datatype call_result = Returned | ModuleExecutionError string | TimeoutError | CircuitOpenError

text \<open>
  Modelled from the spec: the admission of a call at the time \<open>now\<close>. It says whether the
  call may run and gives the state after the decision.
\<close>

definition admit :: "nat \<Rightarrow> breaker \<Rightarrow> bool \<times> breaker" where
  "admit now b =
     (case mode b of
        Closed \<Rightarrow> (True, b)
      | Open until \<Rightarrow> if now < until then (False, b) else (True, b\<lparr>mode := HalfOpen\<rparr>)
      | HalfOpen \<Rightarrow> (False, b))"

text \<open>
  Modelled from the spec: the end of an admitted call at the time \<open>now\<close>. A call that was
  admitted before the breaker opened and ends while it is open changes nothing.
\<close>

definition settle :: "breaker_config \<Rightarrow> nat \<Rightarrow> outcome \<Rightarrow> breaker \<Rightarrow> breaker" where
  "settle cfg now result b =
     (case mode b of
        Closed \<Rightarrow>
          if result = Succeeded then b\<lparr>failures := 0\<rparr>
          else if Suc (failures b) \<ge> failureThreshold cfg
               then b\<lparr>mode := Open (now + cooldown cfg), failures := Suc (failures b)\<rparr>
               else b\<lparr>failures := Suc (failures b)\<rparr>
      | HalfOpen \<Rightarrow>
          if result = Succeeded then b\<lparr>mode := Closed, failures := 0\<rparr>
          else b\<lparr>mode := Open (now + cooldown cfg)\<rparr>
      | Open _ \<Rightarrow> b)"

text \<open>Modelled from the spec: the error a failed or timed-out body surfaces as.\<close>

definition resultOf :: "outcome \<Rightarrow> call_result" where
  "resultOf result =
     (case result of
        Succeeded \<Rightarrow> Returned
      | Failed e \<Rightarrow> ModuleExecutionError e
      | TimedOut \<Rightarrow> TimeoutError)"

text \<open>
  Modelled from the spec: one whole call through the breaker at the time \<open>now\<close>. The
  module body is a function of the number of times it has run before, as a scripted fake
  module is; it runs only when the call is admitted.
\<close>

definition fireAt ::
  "breaker_config \<Rightarrow> (nat \<Rightarrow> outcome) \<Rightarrow> nat \<Rightarrow> breaker \<Rightarrow> call_result \<times> breaker" where
  "fireAt cfg moduleBody now b =
     (case admit now b of
        (False, b') \<Rightarrow> (CircuitOpenError, b')
      | (True, b') \<Rightarrow>
          (let result = moduleBody (invocations b')
           in (resultOf result,
               settle cfg now result (b'\<lparr>invocations := Suc (invocations b')\<rparr>))))"

text \<open>Modelled from the spec: calls one after the other, at the given times.\<close>

fun fireAll ::
  "breaker_config \<Rightarrow> (nat \<Rightarrow> outcome) \<Rightarrow> nat list \<Rightarrow> breaker \<Rightarrow> call_result list \<times> breaker" where
  "fireAll cfg moduleBody [] b = ([], b)"
| "fireAll cfg moduleBody (now # later) b =
     (case fireAt cfg moduleBody now b of
        (r, b') \<Rightarrow> (case fireAll cfg moduleBody later b' of (rs, b'') \<Rightarrow> (r # rs, b'')))"

text \<open>Modelled from the spec: a breaker as it is created, and an example configuration.\<close>

definition newBreaker :: breaker where
  "newBreaker = \<lparr>mode = Closed, failures = 0, invocations = 0\<rparr>"

definition exampleBreakerConfig :: breaker_config where
  "exampleBreakerConfig = \<lparr>failureThreshold = 3, cooldown = 30000\<rparr>"

text \<open>Two scripted module bodies: three failures and then health, and timeouts only.\<close>

definition downThenUp :: "nat \<Rightarrow> outcome" where
  "downThenUp i = (if i < 3 then Failed ''connection refused'' else Succeeded)"

definition alwaysTimingOut :: "nat \<Rightarrow> outcome" where
  "alwaysTimingOut i = TimedOut"

section \<open>The variable resolver\<close>

text \<open>
  Modelled from the spec: the sources hold no variable resolver (the executor is not among
  them). A marker \<^verbatim>\<open>{{expr}}\<close> holds a dotted path with optional bracket indices, such as
  \<^verbatim>\<open>items[0].title\<close>: a root name followed by \<^verbatim>\<open>.key\<close> and \<^verbatim>\<open>[index]\<close> segments.
\<close>

datatype segment = Key string | Index nat

record marker =
  root :: string
  segments :: "segment list"

text \<open>Modelled from the spec: the text of an index and of the full expression of a marker.\<close>

fun digits :: "nat \<Rightarrow> string" where
  "digits n =
     (if n < 10 then [''0123456789'' ! n]
      else digits (n div 10) @ [''0123456789'' ! (n mod 10)])"

fun segmentText :: "segment \<Rightarrow> string" where
  "segmentText (Key k) = ''.'' @ k"
| "segmentText (Index i) = ''['' @ digits i @ '']''"

definition expression :: "marker \<Rightarrow> string" where
  "expression m = root m @ concat (map segmentText (segments m))"

text \<open>
  Modelled from the spec: the output bag is a value tree of objects, arrays and scalars,
  here a JSON object from root names to values (the root \<open>input\<close> is the trigger data).
  Resolution walks the bag from the root name and applies the segments in order.
\<close>

fun applySegment :: "json \<Rightarrow> segment \<Rightarrow> json option" where
  "applySegment (JObject props) (Key k) = map_of props k"
| "applySegment (JArray items) (Index i) = (if i < length items then Some (items ! i) else None)"
| "applySegment _ _ = None"

fun walk :: "json \<Rightarrow> segment list \<Rightarrow> json option" where
  "walk v [] = Some v"
| "walk v (s # ss) = (case applySegment v s of None \<Rightarrow> None | Some v' \<Rightarrow> walk v' ss)"

text \<open>
  Modelled from the spec: the error of a failed resolution, with the full expression and
  the name of the referencing step.
\<close>

datatype resolve_error = MissingVariableError string string

text \<open>
  Modelled from the spec: \<open>resolve\<close> on one marker referenced by the step \<open>stepName\<close>. A
  missing segment fails with the error that names the full expression and the step.
\<close>

definition resolve :: "string \<Rightarrow> (string \<times> json) list \<Rightarrow> marker \<Rightarrow> resolve_error + json" where
  "resolve stepName bag m =
     (case walk (JObject bag) (Key (root m) # segments m) of
        None \<Rightarrow> Inl (MissingVariableError (expression m) stepName)
      | Some v \<Rightarrow> Inr v)"

text \<open>
  Modelled from the spec: what it means for a path to be present in a value, and which
  nested value it then reaches, stated as a relation and not as the walk.
\<close>

inductive reaches :: "json \<Rightarrow> segment list \<Rightarrow> json \<Rightarrow> bool" where
  here: "reaches v [] v"
| key: "map_of props k = Some v \<Longrightarrow> reaches v ss w \<Longrightarrow> reaches (JObject props) (Key k # ss) w"
| index: "i < length items \<Longrightarrow> reaches (items ! i) ss w \<Longrightarrow> reaches (JArray items) (Index i # ss) w"

code_pred reaches .

text \<open>An example bag and two markers, one present and one with a missing index.\<close>

definition exampleBag :: "(string \<times> json) list" where
  "exampleBag =
     [(''input'', JObject [(''topic'', JString ''cats'')]),
      (''feed'', JObject [(''items'',
         JArray [JObject [(''title'', JString ''First'')],
                 JObject [(''title'', JString ''Second'')]])])]"

definition titleMarker :: marker where
  "titleMarker = \<lparr>root = ''feed'', segments = [Key ''items'', Index 1, Key ''title'']\<rparr>"

definition missingMarker :: marker where
  "missingMarker = \<lparr>root = ''feed'', segments = [Key ''items'', Index 2, Key ''title'']\<rparr>"

section \<open>Properties of validateWorkflow\<close>

lemma split_on_not_Nil [simp]: "split_on c s \<noteq> []"
  by (induction s) (auto split: list.splits)

lemma checkRefs_eq: "checkRefs earlier step ws = ws @ stepWarnings earlier step"
proof -
  have "foldl (checkRef earlier step) ws refs =
        ws @ map (undefinedVariableWarning step)
          (filter (\<lambda>v. \<not> definedBefore earlier v \<and> v \<noteq> ''input'') (map varNameOf refs))" for refs
    by (induction refs arbitrary: ws) (simp_all add: checkRef_def Let_def)
  then show ?thesis by (simp add: checkRefs_def stepWarnings_def)
qed

lemma validateStep_eq:
  "validateStep registry earlier step (es, ws) =
     (case moduleError registry step of
        Some e \<Rightarrow> (es @ [e], ws)
      | None \<Rightarrow> (es, ws @ stepWarnings earlier step))"
  by (simp add: validateStep_def moduleError_def checkRefs_eq
           split: list.splits option.splits)

lemma moduleError_None_iff:
  "moduleError registry step = None \<longleftrightarrow> modulePathResolves registry (module step)"
  by (auto simp: moduleError_def validateStep_def modulePathResolves_def
           split: list.splits option.splits)

lemma moduleError_params [simp]:
  "moduleError registry (step\<lparr>params := p\<rparr>) = moduleError registry step"
  by (simp add: moduleError_def validateStep_def invalidFormatError_def
        unknownCategoryError_def unknownModuleError_def unknownFunctionError_def
        split: list.splits option.splits)

lemma fst_validateSteps:
  "fst (validateSteps registry earlier ss (es, ws)) = es @ List.map_filter (moduleError registry) ss"
  by (induction ss arbitrary: earlier es ws)
     (simp_all add: validateStep_eq List.map_filter_simps split: option.splits)

lemma validateSteps_append:
  "validateSteps registry earlier (xs @ ys) acc =
     validateSteps registry (earlier @ xs) ys (validateSteps registry earlier xs acc)"
  by (induction xs arbitrary: earlier acc) simp_all


lemma errors_validateWorkflow:
  "errors (validateWorkflow registry workflow) = List.map_filter (moduleError registry) (steps (config workflow))"
  using fst_validateSteps [of registry "[]" "steps (config workflow)" "[]" "[]"]
  by (cases "validateSteps registry [] (steps (config workflow)) ([], [])")
     (simp add: validateWorkflow_def)


lemma valid_validateWorkflow:
  "valid (validateWorkflow registry workflow) = (errors (validateWorkflow registry workflow) = [])"
  by (cases "validateSteps registry [] (steps (config workflow)) ([], [])")
     (simp add: validateWorkflow_def)

lemma map_filter_append:
  "List.map_filter f (xs @ ys) = List.map_filter f xs @ List.map_filter f ys"
  by (simp add: List.map_filter_def)

lemma map_filter_Nil_iff: "List.map_filter f xs = [] \<longleftrightarrow> (\<forall>x\<in>set xs. f x = None)"
  by (induction xs) (auto simp: List.map_filter_simps split: option.splits)

lemma valid_iff_all_resolve:
  "valid (validateWorkflow registry workflow) \<longleftrightarrow>
     (\<forall>s\<in>set (steps (config workflow)). modulePathResolves registry (module s))"
  by (simp add: valid_validateWorkflow errors_validateWorkflow map_filter_Nil_iff
        moduleError_None_iff)

lemma stepWarnings_cong:
  "map outputAs earlier = map outputAs earlier' \<Longrightarrow> stepWarnings earlier s = stepWarnings earlier' s"
proof -
  assume eq: "map outputAs earlier = map outputAs earlier'"
  have "definedBefore earlier v = definedBefore earlier' v" for v
  proof -
    have "definedBefore e v \<longleftrightarrow> Some v \<in> outputAs ` set e" for e
      by (force simp: definedBefore_def list_ex_iff image_iff)
    moreover from eq have "set (map outputAs earlier) = set (map outputAs earlier')"
      by (rule arg_cong)
    then have "outputAs ` set earlier = outputAs ` set earlier'"
      by (simp only: set_map)
    ultimately show ?thesis by simp
  qed
  then show ?thesis by (simp add: stepWarnings_def)
qed

lemma validateSteps_cong:
  "map outputAs earlier = map outputAs earlier' \<Longrightarrow>
   validateSteps registry earlier ss acc = validateSteps registry earlier' ss acc"
proof (induction ss arbitrary: earlier earlier' acc)
  case Nil
  show ?case by simp
next
  case (Cons s ss)
  obtain es ws where acc: "acc = (es, ws)" by (cases acc)
  have step: "validateStep registry earlier s acc = validateStep registry earlier' s acc"
    using stepWarnings_cong [OF Cons.prems, of s]
    by (simp add: acc validateStep_eq split: option.splits)
  have "map outputAs (earlier @ [s]) = map outputAs (earlier' @ [s])"
    using Cons.prems by simp
  from Cons.IH [OF this] step show ?case by simp
qed

lemma validateStep_params:
  assumes "\<not> modulePathResolves registry (module step)"
  shows "validateStep registry earlier (step\<lparr>params := p\<rparr>) acc = validateStep registry earlier step acc"
proof -
  obtain es ws where acc: "acc = (es, ws)" by (cases acc)
  from assms obtain e where e: "moduleError registry step = Some e"
    using moduleError_None_iff [of registry step] by (cases "moduleError registry step") auto
  then show ?thesis by (simp add: acc validateStep_eq)
qed

lemma validateSteps_params:
  assumes "\<not> modulePathResolves registry (module step)"
  shows "validateSteps registry earlier (pre @ step\<lparr>params := p\<rparr> # post) acc =
         validateSteps registry earlier (pre @ step # post) acc"
proof -
  have "map outputAs ((earlier @ pre) @ [step\<lparr>params := p\<rparr>]) = map outputAs ((earlier @ pre) @ [step])"
    by simp
  from validateSteps_cong [OF this] show ?thesis
    by (simp add: validateSteps_append validateStep_params [OF assms])
qed

lemma chat_refs: "variableRefs ''{\"prompt\":\"{{foo.text}}\"}'' = [''{{foo.text}}'']"
  by (simp add: match_at_def)

lemma foo_varName: "varNameOf ''{{foo.text}}'' = ''foo''"
  by (simp add: varNameOf_def)


lemma example_resolves: "modulePathResolves exampleRegistry ''ai.aiSdk.chat''"
  by (simp add: modulePathResolves_def exampleRegistry_def)

subsection \<open>C1: duplicate outputAs names\<close>

text \<open>
  C1, as stated, fails: \<open>duplicateOutputWorkflow\<close> has two steps that both declare
  \<^verbatim>\<open>outputAs: "foo"\<close>, every module path resolves, and \<open>validateWorkflow\<close> returns no
  error and \<open>valid = True\<close>. The validator never compares \<^verbatim>\<open>outputAs\<close> names.
\<close>

theorem duplicate_outputAs_counterexample:
  "outputAs (steps (config duplicateOutputWorkflow) ! 0) = Some ''foo'' \<and>
   outputAs (steps (config duplicateOutputWorkflow) ! 1) = Some ''foo'' \<and>
   errors (validateWorkflow exampleRegistry duplicateOutputWorkflow) = [] \<and>
   valid (validateWorkflow exampleRegistry duplicateOutputWorkflow)"
  by (simp add: validateWorkflow_def validateStep_def checkRefs_def checkRef_def
        definedBefore_def chat_refs foo_varName
        duplicateOutputWorkflow_def workflowOf_def chatStep_def exampleRegistry_def)

text \<open>
  C1, amended: for a definition with two steps that declare the same \<^verbatim>\<open>outputAs\<close> name,
  the errors of \<open>validateWorkflow\<close> are exactly the module-path errors of its steps, in
  step order, and the definition is valid if and only if every step's module path passes
  the format and registry checks. The duplicate adds no error.
\<close>

theorem duplicate_outputAs_not_an_error:
  assumes "i < j" and "j < length (steps (config workflow))"
    and "outputAs (steps (config workflow) ! i) = Some n"
    and "outputAs (steps (config workflow) ! j) = Some n"
  shows "errors (validateWorkflow registry workflow) =
           List.map_filter (moduleError registry) (steps (config workflow)) \<and>
         (valid (validateWorkflow registry workflow) \<longleftrightarrow>
           (\<forall>s\<in>set (steps (config workflow)). modulePathResolves registry (module s)))"
  by (simp add: errors_validateWorkflow valid_iff_all_resolve)

text \<open>
  Witness for C1 (amended): the two steps of \<open>duplicateOutputWorkflow\<close> share the name
  \<open>foo\<close>, both paths resolve, and the theorem gives \<open>valid\<close>.
\<close>

theorem duplicate_outputAs_not_an_error_witness:
  "(0::nat) < 1 \<and> 1 < length (steps (config duplicateOutputWorkflow)) \<and>
   outputAs (steps (config duplicateOutputWorkflow) ! 0) = Some ''foo'' \<and>
   outputAs (steps (config duplicateOutputWorkflow) ! 1) = Some ''foo'' \<and>
   valid (validateWorkflow exampleRegistry duplicateOutputWorkflow)"
proof -
  have len: "1 < length (steps (config duplicateOutputWorkflow))"
    by (simp add: duplicateOutputWorkflow_def workflowOf_def)
  have o0: "outputAs (steps (config duplicateOutputWorkflow) ! 0) = Some ''foo''"
    by (simp add: duplicateOutputWorkflow_def workflowOf_def chatStep_def)
  have o1: "outputAs (steps (config duplicateOutputWorkflow) ! 1) = Some ''foo''"
    by (simp add: duplicateOutputWorkflow_def workflowOf_def chatStep_def)
  have all: "\<forall>s\<in>set (steps (config duplicateOutputWorkflow)).
               modulePathResolves exampleRegistry (module s)"
    by (simp add: duplicateOutputWorkflow_def workflowOf_def chatStep_def example_resolves)
  have "valid (validateWorkflow exampleRegistry duplicateOutputWorkflow)"
    using duplicate_outputAs_not_an_error [OF zero_less_one len o0 o1, of exampleRegistry] all
    by blast
  with len o0 o1 show ?thesis by simp
qed

subsection \<open>C2: the shape of a module path\<close>

text \<open>
  C2 at the path \<^verbatim>\<open>ai.aiSdk.chat.extra\<close>, with \<^verbatim>\<open>ai.aiSdk.chat\<close> registered: the path has
  four segments, so it is not exactly three non-empty segments, yet \<open>validateWorkflow\<close>
  reports no error for the step. The destructuring keeps the first three segments and the
  fourth is never looked at.
\<close>

theorem extra_segment_path_accepted:
  "module (steps (config extraSegmentWorkflow) ! 0) = ''ai.aiSdk.chat.extra'' \<and>
   \<not> exactlyThreeSegments ''ai.aiSdk.chat.extra'' \<and>
   errors (validateWorkflow exampleRegistry extraSegmentWorkflow) = [] \<and>
   valid (validateWorkflow exampleRegistry extraSegmentWorkflow)"
  by (simp add: validateWorkflow_def validateStep_def checkRefs_def checkRef_def
        definedBefore_def chat_refs foo_varName exactlyThreeSegments_def
        extraSegmentWorkflow_def workflowOf_def chatStep_def exampleRegistry_def)

subsection \<open>C3: warnings for undefined variable roots\<close>




subsection \<open>C10: a step whose module path fails is not scanned\<close>

text \<open>
  C10: when the module path of a step fails one of the format or registry checks, the loop
  body appends exactly one error and leaves the warnings as they were; in the result of
  \<open>validateWorkflow\<close> the step stands for exactly that one error between the errors of
  the steps before and after it, it has no warnings, and replacing its parameters by any
  other text \<open>p\<close> leaves the whole result unchanged.
\<close>

theorem unresolved_module_step_stops:
  assumes "steps (config workflow) = pre @ step # post"
    and "\<not> modulePathResolves registry (module step)"
  shows "\<exists>e. moduleError registry step = Some e \<and>
           validateStep registry pre step (es, ws) = (es @ [e], ws) \<and>
           errors (validateWorkflow registry workflow) =
             List.map_filter (moduleError registry) pre @ [e] @
             List.map_filter (moduleError registry) post \<and>
           warningsOfStep registry (steps (config workflow)) (length pre) = [] \<and>
           validateWorkflow registry
             (workflow\<lparr>config := (config workflow)\<lparr>steps := pre @ step\<lparr>params := p\<rparr> # post\<rparr>\<rparr>) =
           validateWorkflow registry workflow"
proof -
  from assms(2) obtain e where e: "moduleError registry step = Some e"
    using moduleError_None_iff [of registry step] by (cases "moduleError registry step") auto
  have "validateStep registry pre step (es, ws) = (es @ [e], ws)"
    by (simp add: validateStep_eq e)
  moreover have "errors (validateWorkflow registry workflow) =
      List.map_filter (moduleError registry) pre @ [e] @ List.map_filter (moduleError registry) post"
    by (simp add: errors_validateWorkflow assms(1) map_filter_append List.map_filter_simps e)
  moreover have "warningsOfStep registry (steps (config workflow)) (length pre) = []"
    by (simp add: warningsOfStep_def assms)
  moreover have "validateWorkflow registry
      (workflow\<lparr>config := (config workflow)\<lparr>steps := pre @ step\<lparr>params := p\<rparr> # post\<rparr>\<rparr>) =
      validateWorkflow registry workflow"
    by (simp add: validateWorkflow_def assms(1) validateSteps_params [OF assms(2)])
  ultimately show ?thesis using e by blast
qed

text \<open>
  Witness for C10: the first step of \<open>unresolvedWorkflow\<close> names an unregistered
  function and references \<open>foo\<close>; it yields the one error, and the result is the same
  with the parameters \<^verbatim>\<open>{}\<close>.
\<close>

theorem unresolved_module_step_stops_witness:
  "steps (config unresolvedWorkflow) =
     [] @ chatStep ''broken'' ''ai.aiSdk.missing'' (Some ''out'') #
       [chatStep ''next'' ''ai.aiSdk.chat'' None] \<and>
   \<not> modulePathResolves exampleRegistry
       (module (chatStep ''broken'' ''ai.aiSdk.missing'' (Some ''out''))) \<and>
   validateStep exampleRegistry [] (chatStep ''broken'' ''ai.aiSdk.missing'' (Some ''out''))
       ([], []) =
     ([unknownFunctionError (chatStep ''broken'' ''ai.aiSdk.missing'' (Some ''out''))], []) \<and>
   validateWorkflow exampleRegistry
     (unresolvedWorkflow\<lparr>config := (config unresolvedWorkflow)\<lparr>steps :=
        [] @ (chatStep ''broken'' ''ai.aiSdk.missing'' (Some ''out''))\<lparr>params := ''{}''\<rparr> #
          [chatStep ''next'' ''ai.aiSdk.chat'' None]\<rparr>\<rparr>) =
   validateWorkflow exampleRegistry unresolvedWorkflow"
proof -
  let ?step = "chatStep ''broken'' ''ai.aiSdk.missing'' (Some ''out'')"
  have ss: "steps (config unresolvedWorkflow) = [] @ ?step # [chatStep ''next'' ''ai.aiSdk.chat'' None]"
    by (simp add: unresolvedWorkflow_def workflowOf_def)
  have ko: "\<not> modulePathResolves exampleRegistry (module ?step)"
    by (simp add: modulePathResolves_def exampleRegistry_def chatStep_def)
  have err: "moduleError exampleRegistry ?step = Some (unknownFunctionError ?step)"
    by (simp add: moduleError_def validateStep_def exampleRegistry_def chatStep_def)
  from unresolved_module_step_stops [OF ss ko, of "[]" "[]" "''{}''"] err ss ko
  show ?thesis by auto
qed

section \<open>Properties of the run route\<close>

lemma getProperty_not_null: "b \<noteq> JNull \<Longrightarrow> getProperty b k = Inr (property b k)"
  by (simp add: getProperty_def)

lemma requestBody_not_null: "requestJson env \<noteq> Some JNull \<Longrightarrow> requestBody env \<noteq> JNull"
  by (auto simp: requestBody_def split: option.splits)

lemma POST_run_authenticated:
  assumes "checkStrictRateLimit env = None" and "auth env = Some user" and "user \<noteq> []"
    and "requestJson env \<noteq> Some JNull"
  shows "POST_run env workflowId =
     (let b = requestBody env;
          triggerData = orElse (property b ''triggerData'') (JObject []);
          triggerType = orElse (property b ''triggerType'') (JString ''manual'');
          priority = property b ''priority''
      in if isWorkflowQueueAvailable env then
           (case queueWorkflowExecution env workflowId user triggerType triggerData priority of
              Inl e \<Rightarrow> runFailed e
            | Inr ticket \<Rightarrow>
                \<lparr>status = 200,
                 body = [(''success'', JBool True), (''queued'', JBool (queued ticket)),
                         (''jobId'', JString (jobId ticket)),
                         (''message'', JString ''Workflow queued for execution'')]\<rparr>,
            [QueueWorkflowExecution workflowId user triggerType triggerData priority])
         else
           (case executeWorkflow env workflowId user triggerType triggerData of
              Inl e \<Rightarrow> runFailed e
            | Inr result \<Rightarrow>
                if \<not> success result then
                  \<lparr>status = 500,
                   body = [(''success'', JBool False)]
                          @ optionalField ''error'' (map_option JString (error result))
                          @ optionalField ''errorStep'' (map_option JString (errorStep result))\<rparr>
                else
                  \<lparr>status = 200,
                   body = [(''success'', JBool True)] @ optionalField ''output'' (output result)
                          @ [(''queued'', JBool False)]\<rparr>,
            [ExecuteWorkflow workflowId user triggerType triggerData]))"
  using assms requestBody_not_null [OF assms(4)]
  by (simp add: POST_run_def runWorkflow_def getProperty_not_null Let_def split: sum.splits)

lemma example_request:
  "requestBody queueingRunEnv = JObject []" "requestBody inlineRunEnv = JObject []"
  "requestBody failingRunEnv = JObject []" "requestBody throwingRunEnv = JObject []"
  "requestBody bareFailureRunEnv = JObject []"
  by (simp_all add: requestBody_def queueingRunEnv_def inlineRunEnv_def failingRunEnv_def
        throwingRunEnv_def bareFailureRunEnv_def)

lemma empty_body_defaults:
  "orElse (property (JObject []) ''triggerData'') (JObject []) = JObject []"
  "orElse (property (JObject []) ''triggerType'') (JString ''manual'') = JString ''manual''"
  "property (JObject []) ''priority'' = None"
  by (simp_all add: orElse_def property_def)

subsection \<open>C5: queued or inline\<close>

text \<open>
  C5, as stated, fails: with the queue unavailable and an inline run that reports failure,
  the response is the 500 with \<^verbatim>\<open>error\<close> and \<^verbatim>\<open>errorStep\<close>; it has no \<^verbatim>\<open>queued\<close> field.
\<close>

theorem inline_failure_has_no_queued_counterexample:
  "checkStrictRateLimit failingRunEnv = None \<and>
   auth failingRunEnv = Some ''user-1'' \<and>
   \<not> isWorkflowQueueAvailable failingRunEnv \<and>
   POST_run failingRunEnv ''wf-1'' =
     (\<lparr>status = 500,
       body = [(''success'', JBool False), (''error'', JString ''Request failed''),
               (''errorStep'', JString ''fetch'')]\<rparr>,
      [ExecuteWorkflow ''wf-1'' ''user-1'' (JString ''manual'') (JObject [])]) \<and>
   map_of (body (fst (POST_run failingRunEnv ''wf-1''))) ''queued'' = None"
  by (simp add: POST_run_def runWorkflow_def getProperty_def property_def requestBody_def
        orElse_def optionalField_def failingRunEnv_def)

text \<open>
  C5, amended: for an authenticated submission that passed the rate limit, with a body
  other than \<^verbatim>\<open>null\<close>: if the queue is available the handler calls
  \<^verbatim>\<open>queueWorkflowExecution\<close> and nothing else, and when that returns a ticket the response
  is the 200 carrying the ticket's \<^verbatim>\<open>jobId\<close> and \<^verbatim>\<open>queued\<close>; if the queue is unavailable
  the handler calls \<^verbatim>\<open>executeWorkflow\<close> and nothing else, and the response follows from
  its outcome alone: a successful run gives the 200 with the output and \<^verbatim>\<open>queued: false\<close>;
  a run that reports failure gives the 500 whose body is \<^verbatim>\<open>success: false\<close> followed by
  the \<^verbatim>\<open>error\<close> and the \<^verbatim>\<open>errorStep\<close> of the result, each left out when the result has
  none, and no \<^verbatim>\<open>queued\<close> field; a throw gives the 500 of the \<^verbatim>\<open>catch\<close> block.
\<close>

theorem run_submission_paths:
  assumes "checkStrictRateLimit env = None" and "auth env = Some user" and "user \<noteq> []"
    and "requestJson env \<noteq> Some JNull"
    and "data = orElse (property (requestBody env) ''triggerData'') (JObject [])"
    and "kind = orElse (property (requestBody env) ''triggerType'') (JString ''manual'')"
    and "prio = property (requestBody env) ''priority''"
  shows "(isWorkflowQueueAvailable env \<longrightarrow>
            snd (POST_run env workflowId) =
              [QueueWorkflowExecution workflowId user kind data prio] \<and>
            (\<forall>ticket.
               queueWorkflowExecution env workflowId user kind data prio =
                 Inr ticket \<longrightarrow>
               fst (POST_run env workflowId) =
                 \<lparr>status = 200,
                  body = [(''success'', JBool True), (''queued'', JBool (queued ticket)),
                          (''jobId'', JString (jobId ticket)),
                          (''message'', JString ''Workflow queued for execution'')]\<rparr>)) \<and>
         (\<not> isWorkflowQueueAvailable env \<longrightarrow>
            snd (POST_run env workflowId) =
              [ExecuteWorkflow workflowId user kind data] \<and>
            (\<forall>result.
               executeWorkflow env workflowId user kind data = Inr result \<longrightarrow>
               (success result \<longrightarrow>
                  fst (POST_run env workflowId) =
                    \<lparr>status = 200,
                     body = [(''success'', JBool True)] @ optionalField ''output'' (output result)
                            @ [(''queued'', JBool False)]\<rparr> \<and>
                  map_of (body (fst (POST_run env workflowId))) ''queued'' = Some (JBool False)) \<and>
               (\<not> success result \<longrightarrow>
                  status (fst (POST_run env workflowId)) = 500 \<and>
                  map_of (body (fst (POST_run env workflowId))) ''queued'' = None \<and>
                  fst (POST_run env workflowId) =
                    \<lparr>status = 500,
                     body = [(''success'', JBool False)]
                            @ optionalField ''error'' (map_option JString (error result))
                            @ optionalField ''errorStep''
                                (map_option JString (errorStep result))\<rparr> \<and>
                  map_of (body (fst (POST_run env workflowId))) ''error'' =
                    map_option JString (error result) \<and>
                  map_of (body (fst (POST_run env workflowId))) ''errorStep'' =
                    map_option JString (errorStep result))) \<and>
            (\<forall>e. executeWorkflow env workflowId user kind data = Inl e \<longrightarrow>
               fst (POST_run env workflowId) = runFailed e))"
proof -
  note run = POST_run_authenticated [OF assms(1-4), of workflowId] assms(5-7)
  show ?thesis
  proof (intro conjI impI allI)
    assume "isWorkflowQueueAvailable env"
    then show "snd (POST_run env workflowId) =
        [QueueWorkflowExecution workflowId user kind data prio]"
      by (simp add: run Let_def)
  next
    fix ticket
    assume "isWorkflowQueueAvailable env"
      and "queueWorkflowExecution env workflowId user kind data prio = Inr ticket"
    then show "fst (POST_run env workflowId) =
        \<lparr>status = 200,
         body = [(''success'', JBool True), (''queued'', JBool (queued ticket)),
                 (''jobId'', JString (jobId ticket)),
                 (''message'', JString ''Workflow queued for execution'')]\<rparr>"
      by (simp add: run Let_def)
  next
    assume "\<not> isWorkflowQueueAvailable env"
    then show "snd (POST_run env workflowId) =
        [ExecuteWorkflow workflowId user kind data]"
      by (simp add: run Let_def)
  next
    fix result
    assume "\<not> isWorkflowQueueAvailable env"
      and "executeWorkflow env workflowId user kind data = Inr result"
      and "success result"
    then show "fst (POST_run env workflowId) =
        \<lparr>status = 200,
         body = [(''success'', JBool True)] @ optionalField ''output'' (output result)
                @ [(''queued'', JBool False)]\<rparr>"
      and "map_of (body (fst (POST_run env workflowId))) ''queued'' = Some (JBool False)"
      by (simp_all add: run Let_def optionalField_def split: option.splits)
  next
    fix result
    assume "\<not> isWorkflowQueueAvailable env"
      and "executeWorkflow env workflowId user kind data = Inr result"
      and "\<not> success result"
    then show "status (fst (POST_run env workflowId)) = 500"
      and "map_of (body (fst (POST_run env workflowId))) ''queued'' = None"
      and "fst (POST_run env workflowId) =
        \<lparr>status = 500,
         body = [(''success'', JBool False)]
                @ optionalField ''error'' (map_option JString (error result))
                @ optionalField ''errorStep'' (map_option JString (errorStep result))\<rparr>"
      and "map_of (body (fst (POST_run env workflowId))) ''error'' =
        map_option JString (error result)"
      and "map_of (body (fst (POST_run env workflowId))) ''errorStep'' =
        map_option JString (errorStep result)"
      by (simp_all add: run Let_def optionalField_def split: option.splits)
  next
    fix e
    assume "\<not> isWorkflowQueueAvailable env"
      and "executeWorkflow env workflowId user kind data = Inl e"
    then show "fst (POST_run env workflowId) = runFailed e"
      by (simp add: run Let_def)
  qed
qed

text \<open>
  Witness for C5 (amended): \<open>queueingRunEnv\<close> has the queue available and returns the
  ticket \<open>job-7\<close>; \<open>inlineRunEnv\<close> has no queue and a successful inline run;
  \<open>failingRunEnv\<close> has no queue and a run that fails at the step \<open>fetch\<close>;
  \<open>bareFailureRunEnv\<close> has no queue and a failed run without error or step.
\<close>

theorem run_submission_paths_witness:
  "checkStrictRateLimit queueingRunEnv = None \<and> auth queueingRunEnv = Some ''user-1'' \<and>
   requestJson queueingRunEnv \<noteq> Some JNull \<and> isWorkflowQueueAvailable queueingRunEnv \<and>
   snd (POST_run queueingRunEnv ''wf-1'') =
     [QueueWorkflowExecution ''wf-1'' ''user-1'' (JString ''manual'') (JObject []) None] \<and>
   fst (POST_run queueingRunEnv ''wf-1'') =
     \<lparr>status = 200,
      body = [(''success'', JBool True), (''queued'', JBool True), (''jobId'', JString ''job-7''),
              (''message'', JString ''Workflow queued for execution'')]\<rparr> \<and>
   checkStrictRateLimit inlineRunEnv = None \<and> auth inlineRunEnv = Some ''user-1'' \<and>
   requestJson inlineRunEnv \<noteq> Some JNull \<and> \<not> isWorkflowQueueAvailable inlineRunEnv \<and>
   snd (POST_run inlineRunEnv ''wf-1'') =
     [ExecuteWorkflow ''wf-1'' ''user-1'' (JString ''manual'') (JObject [])] \<and>
   map_of (body (fst (POST_run inlineRunEnv ''wf-1''))) ''queued'' = Some (JBool False) \<and>
   checkStrictRateLimit failingRunEnv = None \<and> auth failingRunEnv = Some ''user-1'' \<and>
   requestJson failingRunEnv \<noteq> Some JNull \<and> \<not> isWorkflowQueueAvailable failingRunEnv \<and>
   fst (POST_run failingRunEnv ''wf-1'') =
     \<lparr>status = 500,
      body = [(''success'', JBool False), (''error'', JString ''Request failed''),
              (''errorStep'', JString ''fetch'')]\<rparr> \<and>
   map_of (body (fst (POST_run failingRunEnv ''wf-1''))) ''queued'' = None \<and>
   checkStrictRateLimit bareFailureRunEnv = None \<and> auth bareFailureRunEnv = Some ''user-1'' \<and>
   requestJson bareFailureRunEnv \<noteq> Some JNull \<and>
   \<not> isWorkflowQueueAvailable bareFailureRunEnv \<and>
   fst (POST_run bareFailureRunEnv ''wf-1'') =
     \<lparr>status = 500, body = [(''success'', JBool False)]\<rparr>"
proof -
  have q: "checkStrictRateLimit queueingRunEnv = None" "auth queueingRunEnv = Some ''user-1''"
    "''user-1'' \<noteq> []" "requestJson queueingRunEnv \<noteq> Some JNull"
    "isWorkflowQueueAvailable queueingRunEnv"
    by (simp_all add: queueingRunEnv_def)
  have ticket: "queueWorkflowExecution queueingRunEnv ''wf-1'' ''user-1'' (JString ''manual'')
      (JObject []) None = Inr \<lparr>jobId = ''job-7'', queued = True\<rparr>"
    by (simp add: queueingRunEnv_def)
  have i: "checkStrictRateLimit inlineRunEnv = None" "auth inlineRunEnv = Some ''user-1''"
    "requestJson inlineRunEnv \<noteq> Some JNull" "\<not> isWorkflowQueueAvailable inlineRunEnv"
    by (simp_all add: inlineRunEnv_def)
  have result: "executeWorkflow inlineRunEnv ''wf-1'' ''user-1'' (JString ''manual'') (JObject []) =
      Inr \<lparr>success = True, output = Some (JString ''done''), error = None, errorStep = None\<rparr>"
    by (simp add: inlineRunEnv_def)
  from run_submission_paths [OF q(1-4), of "JObject []" "JString ''manual''" None "''wf-1''"]
    q(5) ticket
  have queued: "snd (POST_run queueingRunEnv ''wf-1'') =
      [QueueWorkflowExecution ''wf-1'' ''user-1'' (JString ''manual'') (JObject []) None] \<and>
    fst (POST_run queueingRunEnv ''wf-1'') =
      \<lparr>status = 200,
       body = [(''success'', JBool True), (''queued'', JBool True), (''jobId'', JString ''job-7''),
               (''message'', JString ''Workflow queued for execution'')]\<rparr>"
    by (simp add: example_request empty_body_defaults)
  from run_submission_paths [OF i(1,2) q(3) i(3), of "JObject []" "JString ''manual''" None "''wf-1''"]
    i(4) result
  have inline: "snd (POST_run inlineRunEnv ''wf-1'') =
      [ExecuteWorkflow ''wf-1'' ''user-1'' (JString ''manual'') (JObject [])] \<and>
    map_of (body (fst (POST_run inlineRunEnv ''wf-1''))) ''queued'' = Some (JBool False)"
    by (simp add: example_request empty_body_defaults optionalField_def)
  have f: "checkStrictRateLimit failingRunEnv = None" "auth failingRunEnv = Some ''user-1''"
    "requestJson failingRunEnv \<noteq> Some JNull" "\<not> isWorkflowQueueAvailable failingRunEnv"
    by (simp_all add: failingRunEnv_def)
  have failure: "executeWorkflow failingRunEnv ''wf-1'' ''user-1'' (JString ''manual'') (JObject []) =
      Inr \<lparr>success = False, output = None, error = Some ''Request failed'',
           errorStep = Some ''fetch''\<rparr>"
    by (simp add: failingRunEnv_def)
  have b: "checkStrictRateLimit bareFailureRunEnv = None" "auth bareFailureRunEnv = Some ''user-1''"
    "requestJson bareFailureRunEnv \<noteq> Some JNull" "\<not> isWorkflowQueueAvailable bareFailureRunEnv"
    by (simp_all add: bareFailureRunEnv_def)
  have bare: "executeWorkflow bareFailureRunEnv ''wf-1'' ''user-1'' (JString ''manual'') (JObject []) =
      Inr \<lparr>success = False, output = None, error = None, errorStep = None\<rparr>"
    by (simp add: bareFailureRunEnv_def)
  from run_submission_paths [OF f(1,2) q(3) f(3), of "JObject []" "JString ''manual''" None "''wf-1''"]
    f(4) failure
  have failing: "fst (POST_run failingRunEnv ''wf-1'') =
      \<lparr>status = 500,
       body = [(''success'', JBool False), (''error'', JString ''Request failed''),
               (''errorStep'', JString ''fetch'')]\<rparr> \<and>
    map_of (body (fst (POST_run failingRunEnv ''wf-1''))) ''queued'' = None"
    by (simp add: example_request empty_body_defaults optionalField_def)
  from run_submission_paths [OF b(1,2) q(3) b(3), of "JObject []" "JString ''manual''" None "''wf-1''"]
    b(4) bare
  have bareFailure: "fst (POST_run bareFailureRunEnv ''wf-1'') =
      \<lparr>status = 500, body = [(''success'', JBool False)]\<rparr>"
    by (simp add: example_request empty_body_defaults optionalField_def)
  from q i f b queued inline failing bareFailure show ?thesis by simp
qed

subsection \<open>C6: errorStep in the response of a failed run\<close>

text \<open>
  C6, as stated, fails: when \<^verbatim>\<open>executeWorkflow\<close> throws, the \<^verbatim>\<open>catch\<close> block answers
  with \<^verbatim>\<open>success: false\<close> and the error message only; there is no \<^verbatim>\<open>errorStep\<close>.
\<close>

theorem thrown_run_has_no_errorStep_counterexample:
  "checkStrictRateLimit throwingRunEnv = None \<and>
   auth throwingRunEnv = Some ''user-1'' \<and>
   POST_run throwingRunEnv ''wf-1'' =
     (\<lparr>status = 500,
       body = [(''success'', JBool False), (''error'', JString ''Workflow not found'')]\<rparr>,
      [ExecuteWorkflow ''wf-1'' ''user-1'' (JString ''manual'') (JObject [])]) \<and>
   map_of (body (fst (POST_run throwingRunEnv ''wf-1''))) ''errorStep'' = None"
  by (simp add: POST_run_def runWorkflow_def getProperty_def property_def requestBody_def
        orElse_def runFailed_def errorMessage_def throwingRunEnv_def)

text \<open>
  C6, amended: for an authenticated submission that passed the rate limit, with a body
  other than \<^verbatim>\<open>null\<close>: when the inline run returns a result with \<^verbatim>\<open>success\<close> false,
  the response is a 500 whose \<^verbatim>\<open>error\<close> and \<^verbatim>\<open>errorStep\<close> are those of the result
  (absent when the result has none); when \<^verbatim>\<open>executeWorkflow\<close> or
  \<^verbatim>\<open>queueWorkflowExecution\<close> throws, the response is the 500 of the \<^verbatim>\<open>catch\<close> block,
  with the message and without \<^verbatim>\<open>errorStep\<close>.
\<close>

theorem failed_run_response:
  assumes "checkStrictRateLimit env = None" and "auth env = Some user" and "user \<noteq> []"
    and "requestJson env \<noteq> Some JNull"
    and "data = orElse (property (requestBody env) ''triggerData'') (JObject [])"
    and "kind = orElse (property (requestBody env) ''triggerType'') (JString ''manual'')"
    and "prio = property (requestBody env) ''priority''"
    and "response = fst (POST_run env workflowId)"
  shows "(\<not> isWorkflowQueueAvailable env \<longrightarrow>
            (\<forall>result.
               executeWorkflow env workflowId user kind data = Inr result \<and> \<not> success result \<longrightarrow>
               status response = 500 \<and>
               map_of (body response) ''success'' = Some (JBool False) \<and>
               map_of (body response) ''error'' = map_option JString (error result) \<and>
               map_of (body response) ''errorStep'' = map_option JString (errorStep result)) \<and>
            (\<forall>e. executeWorkflow env workflowId user kind data = Inl e \<longrightarrow>
               response = runFailed e \<and> map_of (body response) ''errorStep'' = None)) \<and>
         (isWorkflowQueueAvailable env \<longrightarrow>
            (\<forall>e. queueWorkflowExecution env workflowId user kind data prio = Inl e \<longrightarrow>
               response = runFailed e \<and> map_of (body response) ''errorStep'' = None))"
  using POST_run_authenticated [OF assms(1-4), of workflowId] assms(5-8)
  by (auto simp: Let_def optionalField_def runFailed_def split: option.splits)

text \<open>
  Witness for C6 (amended): \<open>failingRunEnv\<close> reports a failure at the step \<open>fetch\<close>,
  \<open>throwingRunEnv\<close> throws.
\<close>

theorem failed_run_response_witness:
  "checkStrictRateLimit failingRunEnv = None \<and> auth failingRunEnv = Some ''user-1'' \<and>
   requestJson failingRunEnv \<noteq> Some JNull \<and> \<not> isWorkflowQueueAvailable failingRunEnv \<and>
   status (fst (POST_run failingRunEnv ''wf-1'')) = 500 \<and>
   map_of (body (fst (POST_run failingRunEnv ''wf-1''))) ''error'' =
     Some (JString ''Request failed'') \<and>
   map_of (body (fst (POST_run failingRunEnv ''wf-1''))) ''errorStep'' = Some (JString ''fetch'') \<and>
   checkStrictRateLimit throwingRunEnv = None \<and> auth throwingRunEnv = Some ''user-1'' \<and>
   requestJson throwingRunEnv \<noteq> Some JNull \<and> \<not> isWorkflowQueueAvailable throwingRunEnv \<and>
   fst (POST_run throwingRunEnv ''wf-1'') = runFailed (Error ''Workflow not found'')"
proof -
  have f: "checkStrictRateLimit failingRunEnv = None" "auth failingRunEnv = Some ''user-1''"
    "''user-1'' \<noteq> []" "requestJson failingRunEnv \<noteq> Some JNull"
    "\<not> isWorkflowQueueAvailable failingRunEnv"
    by (simp_all add: failingRunEnv_def)
  have result: "executeWorkflow failingRunEnv ''wf-1'' ''user-1'' (JString ''manual'') (JObject []) =
      Inr \<lparr>success = False, output = None, error = Some ''Request failed'',
           errorStep = Some ''fetch''\<rparr>"
    by (simp add: failingRunEnv_def)
  have t: "checkStrictRateLimit throwingRunEnv = None" "auth throwingRunEnv = Some ''user-1''"
    "requestJson throwingRunEnv \<noteq> Some JNull" "\<not> isWorkflowQueueAvailable throwingRunEnv"
    by (simp_all add: throwingRunEnv_def)
  have thrown: "executeWorkflow throwingRunEnv ''wf-1'' ''user-1'' (JString ''manual'') (JObject []) =
      Inl (Error ''Workflow not found'')"
    by (simp add: throwingRunEnv_def)
  from failed_run_response [OF f(1-4), of "JObject []" "JString ''manual''" None
      "fst (POST_run failingRunEnv ''wf-1'')" "''wf-1''"] f(5) result
  have failing: "status (fst (POST_run failingRunEnv ''wf-1'')) = 500 \<and>
    map_of (body (fst (POST_run failingRunEnv ''wf-1''))) ''error'' =
      Some (JString ''Request failed'') \<and>
    map_of (body (fst (POST_run failingRunEnv ''wf-1''))) ''errorStep'' = Some (JString ''fetch'')"
    by (simp add: example_request empty_body_defaults)
  from failed_run_response [OF t(1,2) f(3) t(3), of "JObject []" "JString ''manual''" None
      "fst (POST_run throwingRunEnv ''wf-1'')" "''wf-1''"] t(4) thrown
  have throwing: "fst (POST_run throwingRunEnv ''wf-1'') = runFailed (Error ''Workflow not found'')"
    by (simp add: example_request empty_body_defaults)
  from f t failing throwing show ?thesis by simp
qed

section \<open>Properties of the generate route\<close>

lemma property_Some_not_null: "property b k = Some v \<Longrightarrow> b \<noteq> JNull"
  by (auto simp: property_def)

lemma validateAndSave_rows:
  "snd (validateAndSave registry user save db workflow) =
     (if valid (validateWorkflow registry workflow) \<and> save \<and> db \<noteq> None
      then [workflowRow user workflow] else [])"
  by (auto simp: validateAndSave_def Let_def split: option.splits sum.splits)

lemma valid_errors: "valid (validateWorkflow registry workflow) \<longleftrightarrow>
    errors (validateWorkflow registry workflow) = []"
  by (simp add: valid_validateWorkflow)

lemma generateAndSave_rows:
  assumes "row \<in> set (snd (generateAndSave registry user parsedBody generateObject postgresDb))"
  shows "\<exists>p context workflow. generateObject p context = Inr workflow \<and>
           valid (validateWorkflow registry workflow) \<and> row = workflowRow user workflow"
proof -
  have gen: "generateWorkflowFromPrompt generateObject p c = Inr w \<Longrightarrow> generateObject p c = Inr w"
    for p c w
    by (auto simp: generateWorkflowFromPrompt_def split: sum.splits)
  from assms show ?thesis
    by (auto simp: generateAndSave_def validateAndSave_rows
             split: sum.splits option.splits json.splits if_splits dest!: gen)
qed

lemma POST_generate_rows:
  "session = Some user \<Longrightarrow> user \<noteq> [] \<Longrightarrow>
   snd (POST_generate registry session parsedBody generateObject postgresDb) =
   snd (generateAndSave registry user parsedBody generateObject postgresDb)"
  by (simp add: POST_generate_def split: prod.splits sum.splits)

lemma generateAndSave_generated:
  assumes "property b ''prompt'' = Some (JString p)" and "p \<noteq> []"
    and "generateObject p (property b ''context'') = Inr workflow"
  shows "generateAndSave registry user (Inr b) generateObject postgresDb =
     validateAndSave registry user
       (case property b ''saveImmediately'' of None \<Rightarrow> False | Some v \<Rightarrow> \<not> falsy v)
       postgresDb workflow"
  using assms property_Some_not_null [OF assms(1)]
  by (simp add: generateAndSave_def getProperty_def generateWorkflowFromPrompt_def)

subsection \<open>C7: only a valid generated workflow is saved\<close>

text \<open>
  C7: every row the handler hands to the database has status \<open>draft\<close> and belongs to a
  workflow the generator returned and for which \<open>validateWorkflow\<close> reports no error
  (\<open>valid\<close> true). For an authenticated request with a non-empty string prompt whose
  generation succeeded: if the validation has an error, the response is the 400 with the
  workflow and its validation and nothing is saved; if it has none, \<^verbatim>\<open>saveImmediately\<close> is
  truthy and the database is there, the draft row is handed to the insert, whatever the
  warnings.
\<close>

theorem generated_workflow_saved_only_when_valid:
  "(\<forall>row\<in>set (snd (POST_generate registry session parsedBody generateObject postgresDb)).
      workflowStatus row = ''draft'' \<and>
      (\<exists>p context workflow.
         generateObject p context = Inr workflow \<and>
         errors (validateWorkflow registry workflow) = [] \<and>
         valid (validateWorkflow registry workflow) \<and>
         session = Some (userId row) \<and>
         row = workflowRow (userId row) workflow)) \<and>
   (session = Some user \<and> user \<noteq> [] \<and> parsedBody = Inr b \<and>
    property b ''prompt'' = Some (JString p) \<and> p \<noteq> [] \<and>
    generateObject p (property b ''context'') = Inr workflow \<longrightarrow>
      (errors (validateWorkflow registry workflow) \<noteq> [] \<longrightarrow>
         POST_generate registry session parsedBody generateObject postgresDb =
           (ValidationFailed workflow (validateWorkflow registry workflow), [])) \<and>
      (errors (validateWorkflow registry workflow) = [] \<longrightarrow>
       (\<exists>v. property b ''saveImmediately'' = Some v \<and> \<not> falsy v) \<longrightarrow>
       postgresDb = Some insertReturning \<longrightarrow>
         snd (POST_generate registry session parsedBody generateObject postgresDb) =
           [workflowRow user workflow]))"
proof (intro conjI ballI impI)
  fix row
  assume row: "row \<in> set (snd (POST_generate registry session parsedBody generateObject postgresDb))"
  then obtain u where u: "session = Some u" "u \<noteq> []"
    and "row \<in> set (snd (generateAndSave registry u parsedBody generateObject postgresDb))"
    by (auto simp: POST_generate_def split: option.splits if_splits prod.splits sum.splits)
  from generateAndSave_rows [OF this(3)] obtain q c w
    where w: "generateObject q c = Inr w" "valid (validateWorkflow registry w)"
      "row = workflowRow u w"
    by blast
  show "workflowStatus row = ''draft''"
    using w(3) by (simp add: workflowRow_def)
  have "userId row = u" using w(3) by (simp add: workflowRow_def)
  moreover have "errors (validateWorkflow registry w) = []"
    using w(2) by (simp add: valid_errors)
  ultimately show "\<exists>p context workflow.
      generateObject p context = Inr workflow \<and>
      errors (validateWorkflow registry workflow) = [] \<and>
      valid (validateWorkflow registry workflow) \<and>
      session = Some (userId row) \<and> row = workflowRow (userId row) workflow"
    using u w by - (rule exI [of _ q], rule exI [of _ c], rule exI [of _ w], simp)
next
  assume a: "session = Some user \<and> user \<noteq> [] \<and> parsedBody = Inr b \<and>
    property b ''prompt'' = Some (JString p) \<and> p \<noteq> [] \<and>
    generateObject p (property b ''context'') = Inr workflow"
  then have nn: "b \<noteq> JNull" using property_Some_not_null by blast
  have gen: "generateWorkflowFromPrompt generateObject p (property b ''context'') = Inr workflow"
    using a by (simp add: generateWorkflowFromPrompt_def)
  {
    assume "errors (validateWorkflow registry workflow) \<noteq> []"
    then have "\<not> valid (validateWorkflow registry workflow)" by (simp add: valid_errors)
    then show "POST_generate registry session parsedBody generateObject postgresDb =
        (ValidationFailed workflow (validateWorkflow registry workflow), [])"
      using a nn gen
      by (simp add: POST_generate_def generateAndSave_def getProperty_def validateAndSave_def)
  }
  {
    assume "errors (validateWorkflow registry workflow) = []"
      and "\<exists>v. property b ''saveImmediately'' = Some v \<and> \<not> falsy v"
      and "postgresDb = Some insertReturning"
    then show "snd (POST_generate registry session parsedBody generateObject postgresDb) =
        [workflowRow user workflow]"
      using a
      by (auto simp: POST_generate_rows generateAndSave_generated validateAndSave_rows
            valid_errors)
  }
qed

text \<open>
  Witness for C7: \<open>warningWorkflow\<close> has a warning and no error, and its draft row is
  saved; \<open>unscannedWorkflow\<close> has an error and is rejected with its validation.
\<close>

theorem generated_workflow_saved_only_when_valid_witness:
  "errors (validateWorkflow exampleRegistry warningWorkflow) = [] \<and>
   warnings (validateWorkflow exampleRegistry warningWorkflow) \<noteq> [] \<and>
   snd (POST_generate exampleRegistry (Some ''user-1'') (Inr saveRequest)
          (\<lambda>_ _. Inr warningWorkflow) (Some (\<lambda>_. Inr ''wf-42''))) =
     [workflowRow ''user-1'' warningWorkflow] \<and>
   workflowStatus (workflowRow ''user-1'' warningWorkflow) = ''draft'' \<and>
   errors (validateWorkflow exampleRegistry unscannedWorkflow) \<noteq> [] \<and>
   POST_generate exampleRegistry (Some ''user-1'') (Inr saveRequest)
     (\<lambda>_ _. Inr unscannedWorkflow) (Some (\<lambda>_. Inr ''wf-42'')) =
     (ValidationFailed unscannedWorkflow (validateWorkflow exampleRegistry unscannedWorkflow), [])"
proof -
  have e1: "errors (validateWorkflow exampleRegistry warningWorkflow) = []"
    and w1: "warnings (validateWorkflow exampleRegistry warningWorkflow) \<noteq> []"
    by (simp_all add: validateWorkflow_def validateStep_def checkRefs_def checkRef_def
          definedBefore_def match_at_def varNameOf_def
          warningWorkflow_def workflowOf_def chatStep_def exampleRegistry_def)
  have e2: "errors (validateWorkflow exampleRegistry unscannedWorkflow) \<noteq> []"
    by (simp add: validateWorkflow_def validateStep_def
          unscannedWorkflow_def workflowOf_def chatStep_def exampleRegistry_def)
  have p: "property saveRequest ''prompt'' = Some (JString ''Summarise the feed'')"
    and c: "property saveRequest ''context'' = None"
    and sv: "\<exists>v. property saveRequest ''saveImmediately'' = Some v \<and> \<not> falsy v"
    by (simp_all add: property_def saveRequest_def)
  note saved = generated_workflow_saved_only_when_valid
    [where registry = exampleRegistry and session = "Some ''user-1''"
       and parsedBody = "Inr saveRequest" and generateObject = "\<lambda>_ _. Inr warningWorkflow"
       and postgresDb = "Some (\<lambda>_. Inr ''wf-42'')" and user = "''user-1''"
       and b = saveRequest and p = "''Summarise the feed''" and workflow = warningWorkflow
       and insertReturning = "\<lambda>_. Inr ''wf-42''"]
  note rejected = generated_workflow_saved_only_when_valid
    [where registry = exampleRegistry and session = "Some ''user-1''"
       and parsedBody = "Inr saveRequest" and generateObject = "\<lambda>_ _. Inr unscannedWorkflow"
       and postgresDb = "Some (\<lambda>_. Inr ''wf-42'')" and user = "''user-1''"
       and b = saveRequest and p = "''Summarise the feed''" and workflow = unscannedWorkflow
       and insertReturning = "\<lambda>_. Inr ''wf-42''"]
  from saved e1 p sv
  have rows: "snd (POST_generate exampleRegistry (Some ''user-1'') (Inr saveRequest)
      (\<lambda>_ _. Inr warningWorkflow) (Some (\<lambda>_. Inr ''wf-42''))) =
      [workflowRow ''user-1'' warningWorkflow]"
    by simp
  from saved rows
  have draft: "workflowStatus (workflowRow ''user-1'' warningWorkflow) = ''draft''"
    by simp
  from rejected e2 p
  have "POST_generate exampleRegistry (Some ''user-1'') (Inr saveRequest)
      (\<lambda>_ _. Inr unscannedWorkflow) (Some (\<lambda>_. Inr ''wf-42'')) =
      (ValidationFailed unscannedWorkflow (validateWorkflow exampleRegistry unscannedWorkflow), [])"
    by simp
  with e1 w1 e2 rows draft show ?thesis by simp
qed

section \<open>Properties of the GoHighLevel module\<close>

subsection \<open>C4: the calls that go through the wrapper\<close>

text \<open>
  C4 at \<^verbatim>\<open>updateContact\<close> and \<^verbatim>\<open>getContact\<close>: \<^verbatim>\<open>createContact\<close> reaches the network
  through the shared rate limiter and its breaker (timeout 15000), but \<^verbatim>\<open>updateContact\<close>
  and \<^verbatim>\<open>getContact\<close> call \<^verbatim>\<open>makeGHLRequest\<close> directly: their traces hold the request
  alone, with no passage through the limiter or a breaker before it.
\<close>

theorem unwrapped_contact_functions:
  "snd (createContact exampleGhlEnv []) =
     [ThroughRateLimiter ''gohighlevel'', ThroughBreaker ''ghl-create-contact'' 15000,
      NetworkRequest ''POST'' ''https://services.leadconnectorhq.com/contacts/''] \<and>
   routed ghlRateLimiter False False (snd (createContact exampleGhlEnv [])) \<and>
   snd (updateContact exampleGhlEnv ''c-1'' []) =
     [NetworkRequest ''PUT'' ''https://services.leadconnectorhq.com/contacts/c-1''] \<and>
   \<not> routed ghlRateLimiter False False (snd (updateContact exampleGhlEnv ''c-1'' [])) \<and>
   snd (getContact exampleGhlEnv ''c-1'') =
     [NetworkRequest ''GET'' ''https://services.leadconnectorhq.com/contacts/c-1''] \<and>
   \<not> routed ghlRateLimiter False False (snd (getContact exampleGhlEnv ''c-1''))"
  by (simp add: createContact_def updateContact_def getContact_def createContactInternal_def
        contactRequest_def makeGHLRequest_def withRateLimit_def fire_def unset_def
        GHL_BASE_URL_def ghlRateLimiter_def exampleGhlEnv_def contactOf_def property_def)

section \<open>Properties of the circuit breaker\<close>

lemma fireAll_append:
  "fireAll cfg moduleBody (xs @ ys) b =
     (case fireAll cfg moduleBody xs b of
        (rs, b') \<Rightarrow> (case fireAll cfg moduleBody ys b' of (rs', b'') \<Rightarrow> (rs @ rs', b'')))"
  by (induction xs arbitrary: b) (auto split: prod.splits)

lemma fireAt_closed_failure:
  assumes "mode b = Closed" and "moduleBody (invocations b) \<noteq> Succeeded"
  shows "fireAt cfg moduleBody now b =
     (resultOf (moduleBody (invocations b)),
      if Suc (failures b) \<ge> failureThreshold cfg
      then b\<lparr>mode := Open (now + cooldown cfg), failures := Suc (failures b),
             invocations := Suc (invocations b)\<rparr>
      else b\<lparr>failures := Suc (failures b), invocations := Suc (invocations b)\<rparr>)"
  using assms by (simp add: fireAt_def admit_def settle_def Let_def)

lemma fireAll_below_threshold:
  assumes "mode b = Closed" and "failures b + length ts < failureThreshold cfg"
    and "\<forall>i<length ts. moduleBody (invocations b + i) \<noteq> Succeeded"
  shows "fireAll cfg moduleBody ts b =
     (map (\<lambda>i. resultOf (moduleBody (invocations b + i))) [0..<length ts],
      b\<lparr>failures := failures b + length ts, invocations := invocations b + length ts\<rparr>)"
  using assms
proof (induction ts arbitrary: b)
  case Nil
  then show ?case by simp
next
  case (Cons t ts)
  let ?b = "b\<lparr>failures := Suc (failures b), invocations := Suc (invocations b)\<rparr>"
  from Cons.prems(3) have first: "moduleBody (invocations b) \<noteq> Succeeded" by force
  have one: "fireAt cfg moduleBody t b = (resultOf (moduleBody (invocations b)), ?b)"
    using Cons.prems(1,2) first fireAt_closed_failure [of b moduleBody cfg t] by simp
  have later: "\<forall>i<length ts. moduleBody (invocations ?b + i) \<noteq> Succeeded"
    using Cons.prems(3) by force
  have "fireAll cfg moduleBody ts ?b =
     (map (\<lambda>i. resultOf (moduleBody (invocations ?b + i))) [0..<length ts],
      ?b\<lparr>failures := failures ?b + length ts, invocations := invocations ?b + length ts\<rparr>)"
    using Cons.prems(1,2) later by (intro Cons.IH) simp_all
  moreover have "[0..<Suc (length ts)] = 0 # map Suc [0..<length ts]"
    by (simp add: upt_conv_Cons map_Suc_upt del: upt_Suc)
  ultimately show ?case
    by (simp add: one comp_def del: upt_Suc)
qed

lemma resultOf_not_open [simp]:
  "resultOf r \<noteq> CircuitOpenError" "CircuitOpenError \<noteq> resultOf r"
  by (cases r; simp add: resultOf_def)+

subsection \<open>C8: tripping, cooldown and the half-open trial\<close>

text \<open>
  C8: from a closed breaker with no failure counted, \<open>F\<close> calls in a row whose module
  body fails or times out all run the body, and leave the breaker open until \<open>T\<close> after
  the last of them. Until then every call fails with \<open>CircuitOpenError\<close> and leaves the
  state, the count of body runs included, as it was. From then on a call is admitted as
  the trial and the breaker is half-open, where no other call is admitted; a trial that
  succeeds closes the breaker and resets the counter; a trial that fails reopens it until
  \<open>T\<close> after the trial, and calls before that time are refused again.
\<close>

theorem breaker_trips_and_recovers:
  assumes "mode b = Closed" and "failures b = 0" and "0 < failureThreshold cfg"
    and "length ts = failureThreshold cfg"
    and "\<forall>i<failureThreshold cfg. moduleBody (invocations b + i) \<noteq> Succeeded"
    and "opened = snd (fireAll cfg moduleBody ts b)"
    and "until = last ts + cooldown cfg"
    and "n = invocations b + failureThreshold cfg"
  shows "CircuitOpenError \<notin> set (fst (fireAll cfg moduleBody ts b)) \<and>
         mode opened = Open until \<and> invocations opened = n \<and>
         (\<forall>now<until. fireAt cfg moduleBody now opened = (CircuitOpenError, opened)) \<and>
         (\<forall>now\<ge>until.
            admit now opened = (True, opened\<lparr>mode := HalfOpen\<rparr>) \<and>
            (\<forall>now'. fst (admit now' (opened\<lparr>mode := HalfOpen\<rparr>)) = False) \<and>
            (moduleBody n = Succeeded \<longrightarrow>
               fireAt cfg moduleBody now opened =
                 (Returned, opened\<lparr>mode := Closed, failures := 0, invocations := Suc n\<rparr>)) \<and>
            (moduleBody n \<noteq> Succeeded \<longrightarrow>
               fireAt cfg moduleBody now opened =
                 (resultOf (moduleBody n),
                  opened\<lparr>mode := Open (now + cooldown cfg), invocations := Suc n\<rparr>) \<and>
               (\<forall>now'<now + cooldown cfg.
                  fireAt cfg moduleBody now'
                    (opened\<lparr>mode := Open (now + cooldown cfg), invocations := Suc n\<rparr>) =
                  (CircuitOpenError,
                   opened\<lparr>mode := Open (now + cooldown cfg), invocations := Suc n\<rparr>))))"
proof -
  let ?F = "failureThreshold cfg"
  from assms(3,4) have ne: "ts \<noteq> []" by auto
  then have split: "ts = butlast ts @ [last ts]" by simp
  have len: "length (butlast ts) = ?F - 1" using assms(4) by simp
  let ?b1 = "b\<lparr>failures := failures b + length (butlast ts),
               invocations := invocations b + length (butlast ts)\<rparr>"
  have before: "fireAll cfg moduleBody (butlast ts) b =
      (map (\<lambda>i. resultOf (moduleBody (invocations b + i))) [0..<length (butlast ts)], ?b1)"
    using assms(1,2,3,5) len by (intro fireAll_below_threshold) simp_all
  have closed1: "mode ?b1 = Closed" using assms(1) by simp
  have "?F - 1 < ?F" using assms(3) by simp
  with assms(5) have "moduleBody (invocations b + (?F - 1)) \<noteq> Succeeded" by blast
  then have fail1: "moduleBody (invocations ?b1) \<noteq> Succeeded"
    using len by simp
  have lastcall: "fireAt cfg moduleBody (last ts) ?b1 =
      (resultOf (moduleBody (invocations ?b1)),
       ?b1\<lparr>mode := Open (last ts + cooldown cfg), failures := Suc (failures ?b1),
            invocations := Suc (invocations ?b1)\<rparr>)"
    using fireAt_closed_failure [of ?b1 moduleBody cfg "last ts"] closed1 fail1 assms(2,3) len
    by simp
  have all: "fireAll cfg moduleBody ts b =
      (map (\<lambda>i. resultOf (moduleBody (invocations b + i))) [0..<length (butlast ts)]
         @ [resultOf (moduleBody (invocations ?b1))],
       ?b1\<lparr>mode := Open (last ts + cooldown cfg), failures := Suc (failures ?b1),
            invocations := Suc (invocations ?b1)\<rparr>)"
    by (subst split)
       (simp add: fireAll_append before lastcall del: snoc_eq_iff_butlast length_butlast)
  have results: "CircuitOpenError \<notin> set (fst (fireAll cfg moduleBody ts b))"
    by (auto simp: all)
  have m: "mode opened = Open until"
    by (simp add: assms(6,7) all)
  have inv: "invocations opened = n"
    using assms(3) len by (simp add: assms(6,8) all)
  have refuse: "fireAt cfg moduleBody now s = (CircuitOpenError, s)"
    if "mode s = Open u" and "now < u" for s u now
    using that by (simp add: fireAt_def admit_def)
  show ?thesis
  proof (intro conjI allI impI)
    show "CircuitOpenError \<notin> set (fst (fireAll cfg moduleBody ts b))" by (rule results)
    show "mode opened = Open until" by (rule m)
    show "invocations opened = n" by (rule inv)
  next
    fix now assume "now < until"
    with m show "fireAt cfg moduleBody now opened = (CircuitOpenError, opened)"
      by (rule refuse)
  next
    fix now assume "until \<le> now"
    with m show "admit now opened = (True, opened\<lparr>mode := HalfOpen\<rparr>)"
      by (simp add: admit_def)
  next
    fix now now' assume "until \<le> now"
    show "fst (admit now' (opened\<lparr>mode := HalfOpen\<rparr>)) = False"
      by (simp add: admit_def)
  next
    fix now assume "until \<le> now" and "moduleBody n = Succeeded"
    with m inv show "fireAt cfg moduleBody now opened =
        (Returned, opened\<lparr>mode := Closed, failures := 0, invocations := Suc n\<rparr>)"
      by (simp add: fireAt_def admit_def settle_def resultOf_def)
  next
    fix now assume "until \<le> now" and "moduleBody n \<noteq> Succeeded"
    with m inv show "fireAt cfg moduleBody now opened =
        (resultOf (moduleBody n),
         opened\<lparr>mode := Open (now + cooldown cfg), invocations := Suc n\<rparr>)"
      by (simp add: fireAt_def admit_def settle_def)
  next
    fix now now' assume "until \<le> now" and "moduleBody n \<noteq> Succeeded"
      and "now' < now + cooldown cfg"
    then show "fireAt cfg moduleBody now'
        (opened\<lparr>mode := Open (now + cooldown cfg), invocations := Suc n\<rparr>) =
        (CircuitOpenError, opened\<lparr>mode := Open (now + cooldown cfg), invocations := Suc n\<rparr>)"
      by (intro refuse [where u = "now + cooldown cfg"]) simp_all
  qed
qed

text \<open>
  Witness for C8: threshold 3, cooldown 30000, calls at 1000, 2000 and 3000. The breaker
  is open until 33000; a call at 20000 is refused; the trial at 33000 closes the breaker
  when the module is healthy again, and reopens it until 63000 when it times out.
\<close>

theorem breaker_trips_and_recovers_witness:
  "mode newBreaker = Closed \<and> failures newBreaker = 0 \<and>
   0 < failureThreshold exampleBreakerConfig \<and>
   length [1000, 2000, 3000 :: nat] = failureThreshold exampleBreakerConfig \<and>
   mode (snd (fireAll exampleBreakerConfig downThenUp [1000, 2000, 3000] newBreaker)) =
     Open 33000 \<and>
   fireAt exampleBreakerConfig downThenUp 20000
     (snd (fireAll exampleBreakerConfig downThenUp [1000, 2000, 3000] newBreaker)) =
     (CircuitOpenError, snd (fireAll exampleBreakerConfig downThenUp [1000, 2000, 3000] newBreaker)) \<and>
   fireAt exampleBreakerConfig downThenUp 33000
     (snd (fireAll exampleBreakerConfig downThenUp [1000, 2000, 3000] newBreaker)) =
     (Returned, \<lparr>mode = Closed, failures = 0, invocations = 4\<rparr>) \<and>
   fireAt exampleBreakerConfig alwaysTimingOut 33000
     (snd (fireAll exampleBreakerConfig alwaysTimingOut [1000, 2000, 3000] newBreaker)) =
     (TimeoutError, \<lparr>mode = Open 63000, failures = 3, invocations = 4\<rparr>)"
proof -
  let ?up = "snd (fireAll exampleBreakerConfig downThenUp [1000, 2000, 3000] newBreaker)"
  let ?out = "snd (fireAll exampleBreakerConfig alwaysTimingOut [1000, 2000, 3000] newBreaker)"
  have pre: "mode newBreaker = Closed" "failures newBreaker = 0"
    "0 < failureThreshold exampleBreakerConfig"
    "length [1000, 2000, 3000 :: nat] = failureThreshold exampleBreakerConfig"
    by (simp_all add: newBreaker_def exampleBreakerConfig_def)
  have down: "\<forall>i<failureThreshold exampleBreakerConfig.
      downThenUp (invocations newBreaker + i) \<noteq> Succeeded"
    and out: "\<forall>i<failureThreshold exampleBreakerConfig.
      alwaysTimingOut (invocations newBreaker + i) \<noteq> Succeeded"
    by (simp_all add: downThenUp_def alwaysTimingOut_def exampleBreakerConfig_def newBreaker_def)
  have until: "(33000::nat) = last [1000, 2000, 3000] + cooldown exampleBreakerConfig"
    and n: "(3::nat) = invocations newBreaker + failureThreshold exampleBreakerConfig"
    by (simp_all add: exampleBreakerConfig_def newBreaker_def)
  have up_state: "?up = \<lparr>mode = Open 33000, failures = 3, invocations = 3\<rparr>"
    by (simp add: fireAt_def admit_def settle_def resultOf_def downThenUp_def
          newBreaker_def exampleBreakerConfig_def)
  have out_state: "?out = \<lparr>mode = Open 33000, failures = 3, invocations = 3\<rparr>"
    by (simp add: fireAt_def admit_def settle_def resultOf_def alwaysTimingOut_def
          newBreaker_def exampleBreakerConfig_def)
  have cd: "33000 + cooldown exampleBreakerConfig = 63000"
    by (simp add: exampleBreakerConfig_def)
  have d3: "downThenUp 3 = Succeeded" and t3: "alwaysTimingOut 3 \<noteq> Succeeded"
    and r3: "resultOf (alwaysTimingOut 3) = TimeoutError"
    by (simp_all add: downThenUp_def alwaysTimingOut_def resultOf_def)
  note up = breaker_trips_and_recovers
    [where b = newBreaker and cfg = exampleBreakerConfig and ts = "[1000, 2000, 3000]"
       and moduleBody = downThenUp and opened = ?up and until = 33000 and n = 3,
     OF pre down refl until n]
  note timing = breaker_trips_and_recovers
    [where b = newBreaker and cfg = exampleBreakerConfig and ts = "[1000, 2000, 3000]"
       and moduleBody = alwaysTimingOut and opened = ?out and until = 33000 and n = 3,
     OF pre out refl until n]
  note refused = up [THEN conjunct2, THEN conjunct2, THEN conjunct2, THEN conjunct1,
      rule_format, of 20000]
  note trial = up [THEN conjunct2, THEN conjunct2, THEN conjunct2, THEN conjunct2,
      rule_format, of 33000]
  note retrial = timing [THEN conjunct2, THEN conjunct2, THEN conjunct2, THEN conjunct2,
      rule_format, of 33000]
  from up have "mode ?up = Open 33000" by (rule conjunct2 [THEN conjunct1])
  moreover from refused have "fireAt exampleBreakerConfig downThenUp 20000 ?up = (CircuitOpenError, ?up)"
    by (simp del: fireAll.simps)
  moreover from trial d3 have "fireAt exampleBreakerConfig downThenUp 33000 ?up =
      (Returned, ?up\<lparr>mode := Closed, failures := 0, invocations := Suc 3\<rparr>)"
    by (simp del: fireAll.simps)
  then have "fireAt exampleBreakerConfig downThenUp 33000 ?up =
      (Returned, \<lparr>mode = Closed, failures = 0, invocations = 4\<rparr>)"
    by (simp add: up_state del: fireAll.simps)
  moreover from retrial t3 r3 have "fireAt exampleBreakerConfig alwaysTimingOut 33000 ?out =
      (TimeoutError,
       ?out\<lparr>mode := Open (33000 + cooldown exampleBreakerConfig), invocations := Suc 3\<rparr>)"
    by (simp del: fireAll.simps)
  then have "fireAt exampleBreakerConfig alwaysTimingOut 33000 ?out =
      (TimeoutError, \<lparr>mode = Open 63000, failures = 3, invocations = 4\<rparr>)"
    by (simp add: out_state cd del: fireAll.simps)
  ultimately show ?thesis using pre by (simp del: fireAll.simps)
qed

section \<open>Properties of the variable resolver\<close>

lemma walk_reaches: "walk v ss = Some w \<longleftrightarrow> reaches v ss w"
proof
  show "walk v ss = Some w \<Longrightarrow> reaches v ss w"
  proof (induction ss arbitrary: v)
    case Nil
    then show ?case by (simp add: reaches.here)
  next
    case (Cons s ss)
    then obtain v' where step: "applySegment v s = Some v'" and rest: "walk v' ss = Some w"
      by (auto split: option.splits)
    from Cons.IH [OF rest] have r: "reaches v' ss w" .
    from step r show ?case
      by (cases "(v, s)" rule: applySegment.cases)
         (auto intro: reaches.key reaches.index split: if_splits)
  qed
next
  show "reaches v ss w \<Longrightarrow> walk v ss = Some w"
    by (induction rule: reaches.induct) simp_all
qed

subsection \<open>C9: the nested value or MissingVariableError\<close>

text \<open>
  C9: when the path of a marker, from its root name on, reaches a value in the bag,
  \<open>resolve\<close> returns exactly that value; when it reaches none, \<open>resolve\<close> fails with the
  \<open>MissingVariableError\<close> that names the full expression and the referencing step; and a
  value \<open>resolve\<close> returns is always the one the path reaches, so nothing else is ever
  yielded for a missing segment.
\<close>

theorem resolve_present_or_missing:
  "(reaches (JObject bag) (Key (root m) # segments m) v \<longrightarrow>
      resolve stepName bag m = Inr v) \<and>
   ((\<forall>w. \<not> reaches (JObject bag) (Key (root m) # segments m) w) \<longrightarrow>
      resolve stepName bag m = Inl (MissingVariableError (expression m) stepName)) \<and>
   (resolve stepName bag m = Inr v \<longrightarrow> reaches (JObject bag) (Key (root m) # segments m) v)"
proof (intro conjI impI)
  assume "reaches (JObject bag) (Key (root m) # segments m) v"
  then have "walk (JObject bag) (Key (root m) # segments m) = Some v"
    by (simp only: walk_reaches)
  then show "resolve stepName bag m = Inr v"
    by (simp add: resolve_def)
next
  assume none: "\<forall>w. \<not> reaches (JObject bag) (Key (root m) # segments m) w"
  have "walk (JObject bag) (Key (root m) # segments m) = None"
  proof (cases "walk (JObject bag) (Key (root m) # segments m)")
    case None
    then show ?thesis .
  next
    case (Some w)
    then have "reaches (JObject bag) (Key (root m) # segments m) w"
      by (simp only: walk_reaches)
    with none show ?thesis by blast
  qed
  then show "resolve stepName bag m = Inl (MissingVariableError (expression m) stepName)"
    by (simp add: resolve_def)
next
  assume "resolve stepName bag m = Inr v"
  then have "walk (JObject bag) (Key (root m) # segments m) = Some v"
    by (simp add: resolve_def split: option.splits)
  then show "reaches (JObject bag) (Key (root m) # segments m) v"
    by (simp only: walk_reaches)
qed

text \<open>
  Witness for C9: in \<open>exampleBag\<close> the marker \<^verbatim>\<open>feed.items[1].title\<close> resolves to the
  second title, and \<^verbatim>\<open>feed.items[2].title\<close> has no third item.
\<close>

theorem resolve_present_or_missing_witness:
  "reaches (JObject exampleBag) (Key (root titleMarker) # segments titleMarker) (JString ''Second'') \<and>
   resolve ''summarise'' exampleBag titleMarker = Inr (JString ''Second'') \<and>
   walk (JObject exampleBag) (Key (root missingMarker) # segments missingMarker) = None \<and>
   resolve ''summarise'' exampleBag missingMarker =
     Inl (MissingVariableError ''feed.items[2].title'' ''summarise'')"
proof -
  have w1: "walk (JObject exampleBag) (Key (root titleMarker) # segments titleMarker) =
      Some (JString ''Second'')"
    by (simp add: exampleBag_def titleMarker_def)
  then have r1: "reaches (JObject exampleBag) (Key (root titleMarker) # segments titleMarker)
      (JString ''Second'')"
    by (simp only: walk_reaches)
  have w2: "walk (JObject exampleBag) (Key (root missingMarker) # segments missingMarker) = None"
    by (simp add: exampleBag_def missingMarker_def)
  then have r2: "\<forall>w. \<not> reaches (JObject exampleBag)
      (Key (root missingMarker) # segments missingMarker) w"
    by (simp add: walk_reaches [symmetric])
  have e: "expression missingMarker = ''feed.items[2].title''"
    by (simp add: expression_def missingMarker_def)
  from resolve_present_or_missing [of exampleBag titleMarker "JString ''Second''" "''summarise''"] r1
  have "resolve ''summarise'' exampleBag titleMarker = Inr (JString ''Second'')" by blast
  moreover
  from resolve_present_or_missing [of exampleBag missingMarker "JNull" "''summarise''"] r2
  have "resolve ''summarise'' exampleBag missingMarker =
      Inl (MissingVariableError (expression missingMarker) ''summarise'')" by blast
  ultimately show ?thesis using r1 w2 e by simp
qed

end
